theory Spec2Isabelle
  imports Complex_Main
begin

section \<open>Data model of the metal region (ddm1\_resistance.cc)\<close>

text \<open>
  \<^verbatim>\<open>PetscScalar\<close> and \<^verbatim>\<open>double\<close> are modelled as \<^typ>\<open>real\<close>: the arithmetic of the
  source is read as exact arithmetic (no rounding, no infinities). A division by zero,
  which the source answers with an infinity or a NaN, is outside this model: the
  statements about values are to be read for nonzero time steps, resistances,
  distances and widths, as the specification assumes them. Unsigned offsets and
  counts are \<^typ>\<open>nat\<close>, without wrap-around. The C array \<^verbatim>\<open>PetscScalar * x\<close> is a function from
  the index to the value stored there.
\<close>

type_synonym PetscScalar = real

text \<open>
  The insertion mode of PETSc. The source compares the flag against \<^verbatim>\<open>ADD_VALUES\<close> and
  \<^verbatim>\<open>NOT_SET_VALUES\<close>; every other value is an overwrite mode for its guard.
\<close>

datatype InsertMode = NOT_SET_VALUES | INSERT_VALUES | ADD_VALUES | MAX_VALUES

text \<open>
  \<^verbatim>\<open>FVM_NodeData\<close>: the mutable state of a node. \<^verbatim>\<open>psi()\<close> is the stored potential,
  \<^verbatim>\<open>psi_last()\<close> the potential of the previous accepted solution.
\<close>

record FVM_NodeData =
  psi :: PetscScalar
  psi_last :: PetscScalar

text \<open>
  \<^verbatim>\<open>FVM_Node\<close>: the immutable part of a node. \<open>node_ptr\<close> is the identity of the object
  (the address the source holds as \<^verbatim>\<open>FVM_Node *\<close>); the node data is reached through it.
\<close>

record FVM_Node =
  node_ptr :: nat
  global_offset :: nat
  local_offset :: nat
  on_processor :: bool
  on_local :: bool
  volume :: real

text \<open>The values of namespace \<^verbatim>\<open>SolverSpecify\<close> that the file reads.\<close>

record SolverSpecify =
  dt :: real
  PseudoTimeCMOSTime :: real
  PseudoTimeStepMetal :: real
  PseudoTimeTolRelax :: real
  elec_continuity_abs_toler :: real
  hole_continuity_abs_toler :: real
  relative_toler :: real

text \<open>
  Modelled from the spec: the class \<^verbatim>\<open>AutoDScalar\<close> (namespace \<^verbatim>\<open>adtl\<close>) is not part of
  the source file. It is a dual number: a value with a tangent vector whose width is
  the number of active directions (\<^verbatim>\<open>numdir\<close>); every arithmetic operator propagates the
  tangents by the chain rule, \<^verbatim>\<open>setADValue\<close> sets one tangent and \<^verbatim>\<open>getADValue\<close> reads
  them. Only the operators that the source file applies are modelled.
\<close>

record AutoDScalar =
  ad_val :: real
  ad_dx :: "real list"

definition AutoDScalar_of :: "nat \<Rightarrow> real \<Rightarrow> AutoDScalar" where
  "AutoDScalar_of numdir v = \<lparr>ad_val = v, ad_dx = replicate numdir 0\<rparr>"

definition setADValue :: "nat \<Rightarrow> real \<Rightarrow> AutoDScalar \<Rightarrow> AutoDScalar" where
  "setADValue i v a = a\<lparr>ad_dx := (ad_dx a)[i := v]\<rparr>"

definition getADValue :: "AutoDScalar \<Rightarrow> real list" where
  "getADValue a = ad_dx a"

definition getADValue_at :: "AutoDScalar \<Rightarrow> nat \<Rightarrow> real" where
  "getADValue_at a i = (if i < length (ad_dx a) then ad_dx a ! i else 0)"

definition ad_sub :: "AutoDScalar \<Rightarrow> AutoDScalar \<Rightarrow> AutoDScalar" where
  "ad_sub a b = \<lparr>ad_val = ad_val a - ad_val b, ad_dx = map2 (-) (ad_dx a) (ad_dx b)\<rparr>"

definition ad_sub_real :: "AutoDScalar \<Rightarrow> real \<Rightarrow> AutoDScalar" where
  "ad_sub_real a c = \<lparr>ad_val = ad_val a - c, ad_dx = ad_dx a\<rparr>"

definition ad_div_real :: "AutoDScalar \<Rightarrow> real \<Rightarrow> AutoDScalar" where
  "ad_div_real a c = \<lparr>ad_val = ad_val a / c, ad_dx = map (\<lambda>d. d / c) (ad_dx a)\<rparr>"

definition ad_mult_real :: "AutoDScalar \<Rightarrow> real \<Rightarrow> AutoDScalar" where
  "ad_mult_real a c = \<lparr>ad_val = ad_val a * c, ad_dx = map (\<lambda>d. d * c) (ad_dx a)\<rparr>"

definition real_mult_ad :: "real \<Rightarrow> AutoDScalar \<Rightarrow> AutoDScalar" where
  "real_mult_ad c a = \<lparr>ad_val = c * ad_val a, ad_dx = map (\<lambda>d. c * d) (ad_dx a)\<rparr>"

definition ad_uminus :: "AutoDScalar \<Rightarrow> AutoDScalar" where
  "ad_uminus a = \<lparr>ad_val = - ad_val a, ad_dx = map uminus (ad_dx a)\<rparr>"

text \<open>
  \<^verbatim>\<open>MetalSimulationRegion\<close>, as far as the file reads it. \<open>region_nodes\<close> is the node
  container (\<^verbatim>\<open>n_node()\<close> is its size), \<open>region_edges\<close> the range \<^verbatim>\<open>edges_begin()\<close> ..
  \<^verbatim>\<open>edges_end()\<close>. \<open>node_data\<close> is the store of the node data, addressed by \<open>node_ptr\<close>.
  \<open>distance\<close> and \<open>cv_surface_area\<close> are the neighbour tables of the nodes, addressed
  by the two node identities. \<open>CurrentDensity\<close> is the material law
  \<^verbatim>\<open>mt->basic->CurrentDensity\<close> on plain values and \<open>CurrentDensity_AD\<close> its overload
  on \<^verbatim>\<open>AutoDScalar\<close>; both live in the material database and are parameters here.
\<close>

record MetalSimulationRegion =
  region_nodes :: "FVM_Node list"
  region_edges :: "(FVM_Node \<times> FVM_Node) list"
  node_data :: "nat \<Rightarrow> FVM_NodeData"
  distance :: "nat \<Rightarrow> nat \<Rightarrow> real"
  cv_surface_area :: "nat \<Rightarrow> nat \<Rightarrow> real"
  get_conductance :: real
  T_external :: real
  aux_capacitance :: real
  aux_resistance :: real
  total_nodes_in_connected_resistance_region :: nat
  z_width :: real
  connect_to_low_resistance_solderpad :: bool
  CurrentDensity :: "real \<Rightarrow> real \<Rightarrow> real"
  CurrentDensity_AD :: "AutoDScalar \<Rightarrow> real \<Rightarrow> AutoDScalar"

definition n_node :: "MetalSimulationRegion \<Rightarrow> nat" where
  "n_node r = length (region_nodes r)"

text \<open>
  The two filtered node ranges of the region: \<^verbatim>\<open>on_processor_nodes_begin()\<close> ..
  \<^verbatim>\<open>on_processor_nodes_end()\<close> visits the nodes this processor owns,
  \<^verbatim>\<open>on_local_nodes_begin()\<close> .. \<^verbatim>\<open>on_local_nodes_end()\<close> the nodes it holds locally.
\<close>

definition on_processor_nodes :: "MetalSimulationRegion \<Rightarrow> FVM_Node list" where
  "on_processor_nodes r = filter on_processor (region_nodes r)"

definition on_local_nodes :: "MetalSimulationRegion \<Rightarrow> FVM_Node list" where
  "on_local_nodes r = filter on_local (region_nodes r)"

section \<open>Calls on the PETSc vectors and on the sparse matrix\<close>

text \<open>
  The routines act on the vectors and on the Jacobian only through library calls.
  A routine of the model returns the sequence of calls it issues, in order; the
  vector is named by a handle of type \<open>'v\<close>.
\<close>

datatype 'v vec_call =
    VecAssemblyBegin 'v
  | VecAssemblyEnd 'v
  | VecSetValues 'v "nat list" "PetscScalar list" InsertMode
  | VecSetValue 'v nat PetscScalar InsertMode

datatype mat_call =
    add_row nat "nat list" "PetscScalar list"
  | add_entry nat nat PetscScalar

text \<open>
  What a call does to the contents of the vectors. \<^verbatim>\<open>INSERT_VALUES\<close> overwrites the
  entry, \<^verbatim>\<open>ADD_VALUES\<close> adds to it; the assembly calls move no value.
\<close>

definition set_entry :: "InsertMode \<Rightarrow> (nat \<Rightarrow> real) \<Rightarrow> nat \<times> real \<Rightarrow> (nat \<Rightarrow> real)" where
  "set_entry m vec iv =
     (case m of
        INSERT_VALUES \<Rightarrow> vec(fst iv := snd iv)
      | ADD_VALUES \<Rightarrow> vec(fst iv := vec (fst iv) + snd iv)
      | MAX_VALUES \<Rightarrow> vec(fst iv := max (vec (fst iv)) (snd iv))
      | NOT_SET_VALUES \<Rightarrow> vec)"

fun vec_exec :: "('v \<Rightarrow> nat \<Rightarrow> real) \<Rightarrow> 'v vec_call \<Rightarrow> ('v \<Rightarrow> nat \<Rightarrow> real)" where
  "vec_exec st (VecAssemblyBegin v) = st"
| "vec_exec st (VecAssemblyEnd v) = st"
| "vec_exec st (VecSetValues v ix y m) = st(v := foldl (set_entry m) (st v) (zip ix y))"
| "vec_exec st (VecSetValue v i a m) = st(v := set_entry m (st v) (i, a))"

definition vec_run :: "('v \<Rightarrow> nat \<Rightarrow> real) \<Rightarrow> 'v vec_call list \<Rightarrow> ('v \<Rightarrow> nat \<Rightarrow> real)" where
  "vec_run st cs = foldl vec_exec st cs"

text \<open>
  Modelled from the spec: the class \<^verbatim>\<open>SparseMatrix\<close> is not part of the source file.
  The Jacobian accumulator has additive-write semantics: \<^verbatim>\<open>add_row(row, n, cols, vals)\<close>
  adds \<^verbatim>\<open>vals[k]\<close> to the entry \<^verbatim>\<open>(row, cols[k])\<close>, and \<^verbatim>\<open>add(row, col, val)\<close> adds to
  one entry.
\<close>

definition mat_add :: "(nat \<Rightarrow> nat \<Rightarrow> real) \<Rightarrow> nat \<Rightarrow> nat \<times> real \<Rightarrow> (nat \<Rightarrow> nat \<Rightarrow> real)" where
  "mat_add jac row cv = jac(row := (jac row)(fst cv := jac row (fst cv) + snd cv))"

fun mat_exec :: "(nat \<Rightarrow> nat \<Rightarrow> real) \<Rightarrow> mat_call \<Rightarrow> (nat \<Rightarrow> nat \<Rightarrow> real)" where
  "mat_exec jac (add_row row cols vals) = foldl (\<lambda>j. mat_add j row) jac (zip cols vals)"
| "mat_exec jac (add_entry row col val) = mat_add jac row (col, val)"

definition mat_run :: "(nat \<Rightarrow> nat \<Rightarrow> real) \<Rightarrow> mat_call list \<Rightarrow> (nat \<Rightarrow> nat \<Rightarrow> real)" where
  "mat_run jac cs = foldl mat_exec jac cs"

section \<open>DDM1\_Fill\_Value\<close>

text \<open>
  The loop of \<^verbatim>\<open>DDM1_Fill_Value\<close> pushes one entry on each of the buffers \<^verbatim>\<open>ix\<close>, \<^verbatim>\<open>y\<close>
  and \<^verbatim>\<open>s\<close> for every on-processor node.
\<close>

definition Fill_Value_push ::
  "MetalSimulationRegion \<Rightarrow> real \<Rightarrow> nat list \<times> real list \<times> real list \<Rightarrow> FVM_Node
     \<Rightarrow> nat list \<times> real list \<times> real list" where
  "Fill_Value_push r sigma b fvm_node =
     (case b of (ix, y, s) \<Rightarrow>
        (ix @ [global_offset fvm_node],
         y @ [psi (node_data r (node_ptr fvm_node))],
         s @ [1 / (sigma * volume fvm_node)]))"

definition DDM1_Fill_Value :: "MetalSimulationRegion \<Rightarrow> 'v \<Rightarrow> 'v \<Rightarrow> 'v vec_call list" where
  "DDM1_Fill_Value r x L =
     (let sigma = get_conductance r;
          b = foldl (Fill_Value_push r sigma) ([], [], []) (on_processor_nodes r)
      in case b of (ix, y, s) \<Rightarrow>
           if ix \<noteq> []
           then [VecSetValues x ix y INSERT_VALUES, VecSetValues L ix s INSERT_VALUES]
           else [])"

section \<open>The auxiliary lumped elements\<close>

text \<open>Lines 149--150 and 253--254 of the source: the per-node capacitor and resistor.\<close>

definition aux_cap :: "MetalSimulationRegion \<Rightarrow> real" where
  "aux_cap r = aux_capacitance r / real (total_nodes_in_connected_resistance_region r + 1)"

definition aux_res :: "MetalSimulationRegion \<Rightarrow> real" where
  "aux_res r = aux_resistance r * real (total_nodes_in_connected_resistance_region r + 1)"

section \<open>DDM1\_Function\<close>

text \<open>
  The guard at the head of the residual routines: the vector is assembled when the
  flag is neither \<^verbatim>\<open>ADD_VALUES\<close> nor \<^verbatim>\<open>NOT_SET_VALUES\<close>.
\<close>

definition assembly_guard :: "'v \<Rightarrow> InsertMode \<Rightarrow> 'v vec_call list" where
  "assembly_guard f add_value_flag =
     (if add_value_flag \<noteq> ADD_VALUES \<and> add_value_flag \<noteq> NOT_SET_VALUES
      then [VecAssemblyBegin f, VecAssemblyEnd f]
      else [])"

text \<open>The body of the edge loop of \<^verbatim>\<open>DDM1_Function\<close> (lines 107--145).\<close>

definition Function_edge ::
  "MetalSimulationRegion \<Rightarrow> (nat \<Rightarrow> real) \<Rightarrow> real \<Rightarrow> nat list \<times> real list
     \<Rightarrow> FVM_Node \<times> FVM_Node \<Rightarrow> nat list \<times> real list" where
  "Function_edge r x T b e =
     (let fvm_n1 = fst e;
          fvm_n2 = snd e;
          n1_local_offset = local_offset fvm_n1;
          n2_local_offset = local_offset fvm_n2;
          V1 = x n1_local_offset;
          V2 = x n2_local_offset;
          E = (V2 - V1) / distance r (node_ptr fvm_n1) (node_ptr fvm_n2);
          S = \<bar>cv_surface_area r (node_ptr fvm_n1) (node_ptr fvm_n2)\<bar>;
          f = CurrentDensity r E T * S;
          b1 = (if on_processor fvm_n1
                then (fst b @ [global_offset fvm_n1], snd b @ [f]) else b);
          b2 = (if on_processor fvm_n2
                then (fst b1 @ [global_offset fvm_n2], snd b1 @ [- f]) else b1)
      in b2)"

text \<open>The body of the node loop of \<^verbatim>\<open>DDM1_Function\<close> (lines 155--165).\<close>

definition Function_node ::
  "SolverSpecify \<Rightarrow> MetalSimulationRegion \<Rightarrow> (nat \<Rightarrow> real) \<Rightarrow> real \<Rightarrow> real
     \<Rightarrow> nat list \<times> real list \<Rightarrow> FVM_Node \<Rightarrow> nat list \<times> real list" where
  "Function_node cfg r x cap res b fvm_node =
     (let fvm_node_data = node_data r (node_ptr fvm_node);
          V = x (local_offset fvm_node);
          current = - cap * (V - psi fvm_node_data) / dt cfg - (V - psi fvm_node_data) / res
      in (fst b @ [global_offset fvm_node], snd b @ [current]))"

text \<open>The buffers \<^verbatim>\<open>iy\<close> and \<^verbatim>\<open>y\<close> after both loop bodies have run.\<close>

definition Function_buffers ::
  "SolverSpecify \<Rightarrow> MetalSimulationRegion \<Rightarrow> (nat \<Rightarrow> real) \<Rightarrow> nat list \<times> real list" where
  "Function_buffers cfg r x =
     (let T = T_external r;
          b = foldl (Function_edge r x T) ([], []) (region_edges r);
          cap = aux_cap r;
          res = aux_res r
      in foldl (Function_node cfg r x cap res) b (on_processor_nodes r))"

text \<open>
  \<^verbatim>\<open>DDM1_Function\<close>: the calls issued on the vector \<open>f\<close>, and the value of
  \<^verbatim>\<open>add_value_flag\<close> on return.
\<close>

definition DDM1_Function ::
  "SolverSpecify \<Rightarrow> MetalSimulationRegion \<Rightarrow> (nat \<Rightarrow> real) \<Rightarrow> 'v \<Rightarrow> InsertMode
     \<Rightarrow> 'v vec_call list \<times> InsertMode" where
  "DDM1_Function cfg r x f add_value_flag =
     (let b = Function_buffers cfg r x
      in (assembly_guard f add_value_flag
            @ (if fst b \<noteq> [] then [VecSetValues f (fst b) (snd b) ADD_VALUES] else []),
          ADD_VALUES))"

section \<open>DDM1\_Jacobian\<close>

text \<open>
  The body of the edge loop of \<^verbatim>\<open>DDM1_Jacobian\<close> (lines 203--244). The number of
  directions is 2 here (\<^verbatim>\<open>numdir = 2\<close>, line 190); \<^verbatim>\<open>add_row\<close> is called with the count
  2 and reads the first two tangents.
\<close>

definition Jacobian_edge ::
  "MetalSimulationRegion \<Rightarrow> (nat \<Rightarrow> real) \<Rightarrow> real \<Rightarrow> FVM_Node \<times> FVM_Node \<Rightarrow> mat_call list" where
  "Jacobian_edge r x T e =
     (let fvm_n1 = fst e;
          fvm_n2 = snd e;
          n1_local_offset = local_offset fvm_n1;
          n2_local_offset = local_offset fvm_n2;
          row0 = global_offset fvm_n1;
          row1 = global_offset fvm_n2;
          col = [row0, row1];
          V1 = setADValue 0 1 (AutoDScalar_of 2 (x n1_local_offset));
          V2 = setADValue 1 1 (AutoDScalar_of 2 (x n2_local_offset));
          E = ad_div_real (ad_sub V2 V1) (distance r (node_ptr fvm_n1) (node_ptr fvm_n2));
          S = \<bar>cv_surface_area r (node_ptr fvm_n1) (node_ptr fvm_n2)\<bar>;
          f = ad_mult_real (CurrentDensity_AD r E T) S
      in (if on_processor fvm_n1 then [add_row row0 col (take 2 (getADValue f))] else [])
         @ (if on_processor fvm_n2
            then [add_row row1 col (take 2 (getADValue (ad_uminus f)))] else []))"

text \<open>
  The body of the node loop of \<^verbatim>\<open>DDM1_Jacobian\<close> (lines 259--268). The number of
  directions is 1 here (\<^verbatim>\<open>numdir = 1\<close>, line 248).
\<close>

definition Jacobian_node ::
  "SolverSpecify \<Rightarrow> MetalSimulationRegion \<Rightarrow> (nat \<Rightarrow> real) \<Rightarrow> real \<Rightarrow> real \<Rightarrow> FVM_Node \<Rightarrow> mat_call" where
  "Jacobian_node cfg r x cap res fvm_node =
     (let fvm_node_data = node_data r (node_ptr fvm_node);
          V = setADValue 0 1 (AutoDScalar_of 1 (x (local_offset fvm_node)));
          current =
            ad_sub (ad_div_real (real_mult_ad (- cap) (ad_sub_real V (psi fvm_node_data))) (dt cfg))
                   (ad_div_real (ad_sub_real V (psi fvm_node_data)) res)
      in add_entry (global_offset fvm_node) (global_offset fvm_node) (getADValue_at current 0))"

definition DDM1_Jacobian ::
  "SolverSpecify \<Rightarrow> MetalSimulationRegion \<Rightarrow> (nat \<Rightarrow> real) \<Rightarrow> InsertMode
     \<Rightarrow> mat_call list \<times> InsertMode" where
  "DDM1_Jacobian cfg r x add_value_flag =
     (let T = T_external r;
          edge_calls = foldl (\<lambda>cs e. cs @ Jacobian_edge r x T e) [] (region_edges r);
          cap = aux_cap r;
          res = aux_res r;
          node_calls = foldl (\<lambda>cs n. cs @ [Jacobian_node cfg r x cap res n]) edge_calls
                         (on_processor_nodes r)
      in (node_calls, ADD_VALUES))"

section \<open>The pseudo time step routines\<close>

text \<open>
  The capacitor of the pseudo time step method (lines 301, 338 and 371).
  \<^verbatim>\<open>pow(b, 1.0/3.0)\<close> is the real power \<open>b powr (1/3)\<close>.
\<close>

definition pseudo_cap :: "SolverSpecify \<Rightarrow> MetalSimulationRegion \<Rightarrow> real \<Rightarrow> FVM_Node \<Rightarrow> real" where
  "pseudo_cap cfg r sigma fvm_node =
     sigma * (volume fvm_node * z_width r) powr (1 / 3) * PseudoTimeCMOSTime cfg
       / z_width r / real (n_node r)"

definition Pseudo_Function_node ::
  "SolverSpecify \<Rightarrow> MetalSimulationRegion \<Rightarrow> (nat \<Rightarrow> real) \<Rightarrow> 'v \<Rightarrow> real \<Rightarrow> FVM_Node \<Rightarrow> 'v vec_call" where
  "Pseudo_Function_node cfg r x f sigma fvm_node =
     (let cap = pseudo_cap cfg r sigma fvm_node;
          node_data = node_data r (node_ptr fvm_node);
          local_offset = local_offset fvm_node;
          global_offset = global_offset fvm_node;
          V = x local_offset;
          f_V = - cap * (V - psi node_data) / PseudoTimeStepMetal cfg
      in VecSetValue f global_offset f_V ADD_VALUES)"

definition DDM1_Pseudo_Time_Step_Function ::
  "SolverSpecify \<Rightarrow> MetalSimulationRegion \<Rightarrow> (nat \<Rightarrow> real) \<Rightarrow> 'v \<Rightarrow> InsertMode
     \<Rightarrow> 'v vec_call list \<times> InsertMode" where
  "DDM1_Pseudo_Time_Step_Function cfg r x f add_value_flag =
     (let pre = assembly_guard f add_value_flag
      in if connect_to_low_resistance_solderpad r then (pre, add_value_flag)
         else
           (let sigma = get_conductance r
            in (foldl (\<lambda>cs n. cs @ [Pseudo_Function_node cfg r x f sigma n]) pre
                  (on_processor_nodes r),
                ADD_VALUES)))"

definition Pseudo_Jacobian_node ::
  "SolverSpecify \<Rightarrow> MetalSimulationRegion \<Rightarrow> (nat \<Rightarrow> real) \<Rightarrow> real \<Rightarrow> FVM_Node \<Rightarrow> mat_call" where
  "Pseudo_Jacobian_node cfg r x sigma fvm_node =
     (let cap = pseudo_cap cfg r sigma fvm_node;
          node_data = node_data r (node_ptr fvm_node);
          local_offset = local_offset fvm_node;
          global_offset = global_offset fvm_node;
          V = setADValue 0 1 (AutoDScalar_of 1 (x local_offset));
          f_V = ad_div_real (real_mult_ad (- cap) (ad_sub_real V (psi node_data)))
                  (PseudoTimeStepMetal cfg)
      in add_entry global_offset global_offset (getADValue_at f_V 0))"

definition DDM1_Pseudo_Time_Step_Jacobian ::
  "SolverSpecify \<Rightarrow> MetalSimulationRegion \<Rightarrow> (nat \<Rightarrow> real) \<Rightarrow> InsertMode
     \<Rightarrow> mat_call list \<times> InsertMode" where
  "DDM1_Pseudo_Time_Step_Jacobian cfg r x add_value_flag =
     (if connect_to_low_resistance_solderpad r then ([], add_value_flag)
      else
        (let sigma = get_conductance r
         in (foldl (\<lambda>cs n. cs @ [Pseudo_Jacobian_node cfg r x sigma n]) []
               (on_processor_nodes r),
             ADD_VALUES)))"

text \<open>The test of one node in \<^verbatim>\<open>DDM1_Pseudo_Time_Step_Convergence_Test\<close> (lines 371--382).\<close>

definition Convergence_Test_node ::
  "SolverSpecify \<Rightarrow> MetalSimulationRegion \<Rightarrow> (nat \<Rightarrow> real) \<Rightarrow> real \<Rightarrow> nat \<Rightarrow> FVM_Node \<Rightarrow> nat" where
  "Convergence_Test_node cfg r x sigma unconvergend fvm_node =
     (let cap = pseudo_cap cfg r sigma fvm_node;
          node_data = node_data r (node_ptr fvm_node);
          local_offset = local_offset fvm_node;
          V = x local_offset;
          fV_abs = \<bar>- cap * (V - psi node_data) / PseudoTimeStepMetal cfg\<bar>;
          V_rel = \<bar>cap * (V - psi node_data)\<bar> / (\<bar>V\<bar> + \<bar>psi node_data\<bar> + 1 / 10 ^ 10)
      in if fV_abs > PseudoTimeTolRelax cfg * (1 / 2)
                       * (elec_continuity_abs_toler cfg + hole_continuity_abs_toler cfg)
            \<and> V_rel > relative_toler cfg
         then unconvergend + 1 else unconvergend)"

definition DDM1_Pseudo_Time_Step_Convergence_Test ::
  "SolverSpecify \<Rightarrow> MetalSimulationRegion \<Rightarrow> (nat \<Rightarrow> real) \<Rightarrow> nat" where
  "DDM1_Pseudo_Time_Step_Convergence_Test cfg r x =
     (if connect_to_low_resistance_solderpad r then 0
      else
        (let sigma = get_conductance r
         in foldl (Convergence_Test_node cfg r x sigma) 0 (on_processor_nodes r)))"

section \<open>DDM1\_Update\_Solution\<close>

text \<open>
  The body of the loop (lines 397--402): \<^verbatim>\<open>psi_last()\<close> takes the value of \<^verbatim>\<open>psi()\<close>, then
  \<^verbatim>\<open>psi()\<close> takes the entry of \<^verbatim>\<open>lxx\<close> at the local offset. The store is the only state
  the routine writes.
\<close>

definition Update_Solution_node ::
  "(nat \<Rightarrow> real) \<Rightarrow> (nat \<Rightarrow> FVM_NodeData) \<Rightarrow> FVM_Node \<Rightarrow> (nat \<Rightarrow> FVM_NodeData)" where
  "Update_Solution_node lxx st fvm_node =
     (let p = node_ptr fvm_node;
          st1 = st(p := (st p)\<lparr>psi_last := psi (st p)\<rparr>);
          st2 = st1(p := (st1 p)\<lparr>psi := lxx (local_offset fvm_node)\<rparr>)
      in st2)"

definition DDM1_Update_Solution ::
  "MetalSimulationRegion \<Rightarrow> (nat \<Rightarrow> real) \<Rightarrow> MetalSimulationRegion" where
  "DDM1_Update_Solution r lxx =
     r\<lparr>node_data := foldl (Update_Solution_node lxx) (node_data r) (on_local_nodes r)\<rparr>"

section \<open>Reference definitions, in the words of the specification\<close>

text \<open>
  The flux of an edge as the specification writes it: the field estimate
  \<open>E = (V2 - V1) / distance\<close>, and \<open>f = J(E, T) * |area|\<close>.
\<close>

definition spec_flux :: "MetalSimulationRegion \<Rightarrow> FVM_Node \<times> FVM_Node \<Rightarrow> real \<Rightarrow> real \<Rightarrow> real" where
  "spec_flux r e V1 V2 =
     CurrentDensity r ((V2 - V1) / distance r (node_ptr (fst e)) (node_ptr (snd e))) (T_external r)
       * \<bar>cv_surface_area r (node_ptr (fst e)) (node_ptr (snd e))\<bar>"

text \<open>
  The residual entries of an edge: \<open>+f\<close> for node 1 if it is owned, \<open>-f\<close> for node 2
  if it is owned.
\<close>

definition spec_edge_residual ::
  "MetalSimulationRegion \<Rightarrow> (nat \<Rightarrow> real) \<Rightarrow> FVM_Node \<times> FVM_Node \<Rightarrow> (nat \<times> real) list" where
  "spec_edge_residual r x e =
     (if on_processor (fst e)
      then [(global_offset (fst e),
             spec_flux r e (x (local_offset (fst e))) (x (local_offset (snd e))))]
      else [])
     @ (if on_processor (snd e)
        then [(global_offset (snd e),
               - spec_flux r e (x (local_offset (fst e))) (x (local_offset (snd e))))]
        else [])"

text \<open>
  The Jacobian rows of an edge, for the derivative row \<open>[d1, d2]\<close>: the row itself for
  node 1 if it is owned, its negation for node 2 if it is owned, both at the columns
  of node 1 and node 2.
\<close>

definition spec_edge_rows :: "FVM_Node \<times> FVM_Node \<Rightarrow> real \<Rightarrow> real \<Rightarrow> mat_call list" where
  "spec_edge_rows e d1 d2 =
     (if on_processor (fst e)
      then [add_row (global_offset (fst e)) [global_offset (fst e), global_offset (snd e)] [d1, d2]]
      else [])
     @ (if on_processor (snd e)
        then [add_row (global_offset (snd e)) [global_offset (fst e), global_offset (snd e)]
                [- d1, - d2]]
        else [])"

text \<open>
  The current of the auxiliary lumped elements of one node:
  \<open>current = -cap * (V - V_prev) / dt - (V - V_prev) / res\<close> with
  \<open>cap = capacitance / (networkNodeCount + 1)\<close> and
  \<open>res = resistance * (networkNodeCount + 1)\<close>.
\<close>

definition spec_aux_current :: "SolverSpecify \<Rightarrow> MetalSimulationRegion \<Rightarrow> real \<Rightarrow> real \<Rightarrow> real" where
  "spec_aux_current cfg r V_prev V =
     - (aux_capacitance r / (real (total_nodes_in_connected_resistance_region r) + 1))
         * (V - V_prev) / dt cfg
     - (V - V_prev) / (aux_resistance r * (real (total_nodes_in_connected_resistance_region r) + 1))"

text \<open>
  The capacitor of the pseudo-transient stabilizer,
  \<open>cap = conductance * (nodeVolume * zWidth)^(1/3) * pseudoTimeConstant / zWidth
  / totalNodesInRegion\<close>, and its term \<open>f = -cap * (V - V_prev) / pseudoTimeStep\<close>.
\<close>

definition spec_pseudo_cap :: "SolverSpecify \<Rightarrow> MetalSimulationRegion \<Rightarrow> FVM_Node \<Rightarrow> real" where
  "spec_pseudo_cap cfg r n =
     get_conductance r * (volume n * z_width r) powr (1 / 3) * PseudoTimeCMOSTime cfg
       / z_width r / real (length (region_nodes r))"

definition spec_pseudo_term ::
  "SolverSpecify \<Rightarrow> MetalSimulationRegion \<Rightarrow> FVM_Node \<Rightarrow> real \<Rightarrow> real \<Rightarrow> real" where
  "spec_pseudo_term cfg r n V_prev V =
     - spec_pseudo_cap cfg r n * (V - V_prev) / PseudoTimeStepMetal cfg"

text \<open>
  The two quantities of the convergence test and its thresholds: \<open>fAbs\<close>,
  \<open>relChange\<close>, the relaxed absolute tolerance (the relaxation factor times the mean
  of the two continuity tolerances) and the classification of a node.
\<close>

definition spec_fAbs :: "SolverSpecify \<Rightarrow> MetalSimulationRegion \<Rightarrow> FVM_Node \<Rightarrow> real \<Rightarrow> real \<Rightarrow> real" where
  "spec_fAbs cfg r n V_prev V = \<bar>- spec_pseudo_cap cfg r n * (V - V_prev) / PseudoTimeStepMetal cfg\<bar>"

definition spec_relChange :: "SolverSpecify \<Rightarrow> MetalSimulationRegion \<Rightarrow> FVM_Node \<Rightarrow> real \<Rightarrow> real \<Rightarrow> real" where
  "spec_relChange cfg r n V_prev V =
     \<bar>spec_pseudo_cap cfg r n * (V - V_prev)\<bar> / (\<bar>V\<bar> + \<bar>V_prev\<bar> + 1 / 10 ^ 10)"

definition spec_abs_tol :: "SolverSpecify \<Rightarrow> real" where
  "spec_abs_tol cfg =
     PseudoTimeTolRelax cfg * ((elec_continuity_abs_toler cfg + hole_continuity_abs_toler cfg) / 2)"

definition spec_unconverged ::
  "SolverSpecify \<Rightarrow> MetalSimulationRegion \<Rightarrow> (nat \<Rightarrow> real) \<Rightarrow> FVM_Node \<Rightarrow> bool" where
  "spec_unconverged cfg r x n =
     (spec_fAbs cfg r n (psi (node_data r (node_ptr n))) (x (local_offset n)) > spec_abs_tol cfg
      \<and> spec_relChange cfg r n (psi (node_data r (node_ptr n))) (x (local_offset n))
          > relative_toler cfg)"

text \<open>
  All residual entries of one pass of the edge flux assembler and of the auxiliary
  lumped-element model, in the order in which they are pushed.
\<close>

definition spec_residual_entries ::
  "SolverSpecify \<Rightarrow> MetalSimulationRegion \<Rightarrow> (nat \<Rightarrow> real) \<Rightarrow> (nat \<times> real) list" where
  "spec_residual_entries cfg r x =
     concat (map (spec_edge_residual r x) (region_edges r))
     @ map (\<lambda>n. (global_offset n,
                  spec_aux_current cfg r (psi (node_data r (node_ptr n))) (x (local_offset n))))
         (on_processor_nodes r)"

text \<open>
  The partial derivatives of these expressions, by the chain rule. \<open>J'\<close> is the
  derivative of the current-density law in its field argument. The theorems below
  prove that they are the derivatives and that the Jacobian routines insert them.
\<close>

definition flux_dV1 ::
  "MetalSimulationRegion \<Rightarrow> (real \<Rightarrow> real) \<Rightarrow> FVM_Node \<times> FVM_Node \<Rightarrow> real \<Rightarrow> real \<Rightarrow> real" where
  "flux_dV1 r J' e V1 V2 =
     J' ((V2 - V1) / distance r (node_ptr (fst e)) (node_ptr (snd e)))
       * (- 1 / distance r (node_ptr (fst e)) (node_ptr (snd e)))
       * \<bar>cv_surface_area r (node_ptr (fst e)) (node_ptr (snd e))\<bar>"

definition flux_dV2 ::
  "MetalSimulationRegion \<Rightarrow> (real \<Rightarrow> real) \<Rightarrow> FVM_Node \<times> FVM_Node \<Rightarrow> real \<Rightarrow> real \<Rightarrow> real" where
  "flux_dV2 r J' e V1 V2 =
     J' ((V2 - V1) / distance r (node_ptr (fst e)) (node_ptr (snd e)))
       * (1 / distance r (node_ptr (fst e)) (node_ptr (snd e)))
       * \<bar>cv_surface_area r (node_ptr (fst e)) (node_ptr (snd e))\<bar>"

definition aux_dcurrent :: "SolverSpecify \<Rightarrow> MetalSimulationRegion \<Rightarrow> real" where
  "aux_dcurrent cfg r =
     - (aux_capacitance r / (real (total_nodes_in_connected_resistance_region r) + 1)) / dt cfg
     - 1 / (aux_resistance r * (real (total_nodes_in_connected_resistance_region r) + 1))"

definition pseudo_dterm :: "SolverSpecify \<Rightarrow> MetalSimulationRegion \<Rightarrow> FVM_Node \<Rightarrow> real" where
  "pseudo_dterm cfg r n = - spec_pseudo_cap cfg r n / PseudoTimeStepMetal cfg"

text \<open>
  An additive write to the vector \<open>f\<close>: a call that sets values of \<open>f\<close> with
  \<^verbatim>\<open>ADD_VALUES\<close>. The assembly calls are the synchronization barrier.
\<close>

fun additive_write :: "'v \<Rightarrow> 'v vec_call \<Rightarrow> bool" where
  "additive_write f (VecSetValues v ix y m) = (v = f \<and> m = ADD_VALUES)"
| "additive_write f (VecSetValue v i a m) = (v = f \<and> m = ADD_VALUES)"
| "additive_write f (VecAssemblyBegin v) = False"
| "additive_write f (VecAssemblyEnd v) = False"

section \<open>Example inputs\<close>

text \<open>
  A region of three nodes on a line: \<open>ex_A\<close> and \<open>ex_B\<close> are owned by this
  processor, \<open>ex_C\<close> is a ghost node (held locally, owned elsewhere). The edge data are
  those of the end-to-end scenario of the specification (distance \<open>1e-6\<close>, area of
  magnitude \<open>1e-12\<close>, linear law \<open>J = sigma * E\<close> with \<open>sigma = 10\<close>); the area
  is stored with a negative sign.
\<close>

definition ex_A :: FVM_Node where
  "ex_A = \<lparr>node_ptr = 0, global_offset = 0, local_offset = 0,
           on_processor = True, on_local = True, volume = 1 / 2\<rparr>"

definition ex_B :: FVM_Node where
  "ex_B = \<lparr>node_ptr = 1, global_offset = 1, local_offset = 1,
           on_processor = True, on_local = True, volume = 1 / 2\<rparr>"

definition ex_C :: FVM_Node where
  "ex_C = \<lparr>node_ptr = 2, global_offset = 2, local_offset = 2,
           on_processor = False, on_local = True, volume = 1 / 2\<rparr>"

definition ex_data :: "nat \<Rightarrow> FVM_NodeData" where
  "ex_data p = \<lparr>psi = (if p = 0 then 1 / 4 else if p = 1 then 3 / 4 else 1 / 2), psi_last = 0\<rparr>"

definition ex_region :: MetalSimulationRegion where
  "ex_region =
     \<lparr>region_nodes = [ex_A, ex_B, ex_C],
      region_edges = [(ex_A, ex_B), (ex_B, ex_C)],
      node_data = ex_data,
      distance = (\<lambda>p q. 1 / 10 ^ 6),
      cv_surface_area = (\<lambda>p q. - (1 / 10 ^ 12)),
      get_conductance = 10,
      T_external = 300,
      aux_capacitance = 4,
      aux_resistance = 1 / 2,
      total_nodes_in_connected_resistance_region = 1,
      z_width = 2,
      connect_to_low_resistance_solderpad = False,
      CurrentDensity = (\<lambda>E T. 10 * E),
      CurrentDensity_AD = (\<lambda>E T. \<lparr>ad_val = 10 * ad_val E, ad_dx = map (\<lambda>d. 10 * d) (ad_dx E)\<rparr>)\<rparr>"

definition ex_edge :: "FVM_Node \<times> FVM_Node" where
  "ex_edge = (ex_A, ex_B)"

text \<open>
  The same nodes without the edges, flagged as connected to a low-resistance solder
  pad: every entry that \<^verbatim>\<open>DDM1_Function\<close> and \<^verbatim>\<open>DDM1_Jacobian\<close> produce for this
  region comes from the auxiliary lumped elements.
\<close>

definition ex_pad_region :: MetalSimulationRegion where
  "ex_pad_region =
     ex_region\<lparr>region_edges := [], connect_to_low_resistance_solderpad := True\<rparr>"

definition ex_cfg :: SolverSpecify where
  "ex_cfg = \<lparr>dt = 2, PseudoTimeCMOSTime = 1, PseudoTimeStepMetal = 1 / 2,
             PseudoTimeTolRelax = 2, elec_continuity_abs_toler = 1,
             hole_continuity_abs_toler = 3, relative_toler = 1 / 10\<rparr>"

text \<open>
  A configuration and an iterate that put the node \<open>ex_A\<close> exactly on both
  thresholds of the convergence test: its capacitor is \<open>5/3\<close>, so with
  \<open>V - V_prev = 6/5\<close> the value of \<open>fAbs\<close> is 4, the relaxed absolute tolerance
  of \<open>ex_cfg\<close>, and the relative tolerance is set to the value of \<open>relChange\<close>.
\<close>

definition ex_boundary_cfg :: SolverSpecify where
  "ex_boundary_cfg = ex_cfg\<lparr>relative_toler := 2 * 10 ^ 10 / (17 * 10 ^ 9 + 1)\<rparr>"

definition ex_boundary_x :: "nat \<Rightarrow> real" where
  "ex_boundary_x i = (if i = 0 then 29 / 20 else if i = 1 then 3 / 4 else 1 / 2)"

text \<open>A configuration with a small relaxed absolute tolerance, \<open>1/5\<close>.\<close>

definition ex_strict_cfg :: SolverSpecify where
  "ex_strict_cfg = ex_cfg\<lparr>PseudoTimeTolRelax := 1 / 10\<rparr>"

text \<open>The iterate: potential 0 at the first node, 1 at the second, 1/2 at the third.\<close>

definition ex_x :: "nat \<Rightarrow> real" where
  "ex_x i = (if i = 0 then 0 else if i = 1 then 1 else 1 / 2)"

section \<open>Facts about the example inputs and the library calls\<close>

lemmas ex_defs = ex_A_def ex_B_def ex_C_def ex_data_def ex_region_def ex_pad_region_def
  ex_cfg_def ex_x_def ex_edge_def ex_boundary_cfg_def ex_boundary_x_def ex_strict_cfg_def

lemma ex_on_processor_nodes: "on_processor_nodes ex_region = [ex_A, ex_B]"
  by (simp add: on_processor_nodes_def ex_defs)

lemma set_entry_INSERT: "set_entry INSERT_VALUES vec (i, v) = vec(i := v)"
  by (simp add: set_entry_def)

lemma set_entry_ADD: "set_entry ADD_VALUES vec (i, v) = vec(i := vec i + v)"
  by (simp add: set_entry_def)

lemma vec_run_assembly_guard: "vec_run st (assembly_guard f flag) = st"
  by (simp add: assembly_guard_def vec_run_def)

lemma foldl_add_entries:
  "foldl (set_entry ADD_VALUES) vec ivs i =
     vec i + sum_list (map snd (filter (\<lambda>p. fst p = i) ivs))"
proof (induction ivs arbitrary: vec)
  case Nil
  then show ?case by simp
next
  case (Cons a ivs)
  obtain j v where a: "a = (j, v)" by (cases a)
  show ?case
    unfolding a by (simp add: Cons.IH set_entry_ADD)
qed

lemma foldl_insert_other:
  "i \<notin> set (map fst ivs) \<Longrightarrow> foldl (set_entry INSERT_VALUES) vec ivs i = vec i"
  by (induction ivs arbitrary: vec) (auto simp: set_entry_INSERT)

lemma foldl_insert_map_other:
  "i \<notin> g ` set ns \<Longrightarrow>
     foldl (set_entry INSERT_VALUES) vec (zip (map g ns) (map h ns)) i = vec i"
  by (rule foldl_insert_other) (auto dest: set_zip_leftD)

lemma foldl_insert_map:
  "distinct (map g ns) \<Longrightarrow> n \<in> set ns \<Longrightarrow>
     foldl (set_entry INSERT_VALUES) vec (zip (map g ns) (map h ns)) (g n) = h n"
proof (induction ns arbitrary: vec)
  case Nil
  then show ?case by simp
next
  case (Cons a ns)
  show ?case
  proof (cases "n = a")
    case True
    have "g a \<notin> set (map fst (zip (map g ns) (map h ns)))"
      using Cons.prems(1) by simp
    then have "foldl (set_entry INSERT_VALUES) (set_entry INSERT_VALUES vec (g a, h a))
                 (zip (map g ns) (map h ns)) (g a) = set_entry INSERT_VALUES vec (g a, h a) (g a)"
      by (rule foldl_insert_other)
    then show ?thesis
      using True by (simp add: set_entry_INSERT)
  next
    case False
    then show ?thesis using Cons by simp
  qed
qed

section \<open>DDM1\_Fill\_Value: what is written\<close>

lemma foldl_Fill_Value_push:
  "foldl (Fill_Value_push r sigma) (ix, y, s) ns =
     (ix @ map global_offset ns,
      y @ map (\<lambda>n. psi (node_data r (node_ptr n))) ns,
      s @ map (\<lambda>n. 1 / (sigma * volume n)) ns)"
  by (induction ns arbitrary: ix y s) (simp_all add: Fill_Value_push_def)

lemma DDM1_Fill_Value_calls:
  "DDM1_Fill_Value r x L =
     (if on_processor_nodes r = [] then []
      else [VecSetValues x (map global_offset (on_processor_nodes r))
              (map (\<lambda>n. psi (node_data r (node_ptr n))) (on_processor_nodes r)) INSERT_VALUES,
            VecSetValues L (map global_offset (on_processor_nodes r))
              (map (\<lambda>n. 1 / (get_conductance r * volume n)) (on_processor_nodes r)) INSERT_VALUES])"
  by (simp add: DDM1_Fill_Value_def foldl_Fill_Value_push)

text \<open>
  Claim C10. \<^verbatim>\<open>DDM1_Fill_Value\<close> issues at most two calls, both with \<^verbatim>\<open>INSERT_VALUES\<close>:
  one on the solution vector \<open>x\<close> with the stored potential of every on-processor
  node at the node's global offset, one on the scaling vector \<open>L\<close> with
  \<open>1 / (conductance * volume)\<close> at the same indices. When the on-processor nodes have
  distinct global offsets and \<open>x\<close> and \<open>L\<close> are different vectors, the entries of the
  on-processor nodes hold these values afterwards, whatever they held before; every
  other entry of \<open>x\<close> and \<open>L\<close> and every other vector is unchanged. The routine
  takes no insertion-mode flag and returns nothing but these calls, so no other state
  is written.
\<close>

theorem DDM1_Fill_Value_writes:
  assumes dist: "distinct (map global_offset (on_processor_nodes r))"
      and xL: "x \<noteq> L"
  shows "DDM1_Fill_Value r x L =
           (if on_processor_nodes r = [] then []
            else [VecSetValues x (map global_offset (on_processor_nodes r))
                    (map (\<lambda>n. psi (node_data r (node_ptr n))) (on_processor_nodes r))
                    INSERT_VALUES,
                  VecSetValues L (map global_offset (on_processor_nodes r))
                    (map (\<lambda>n. 1 / (get_conductance r * volume n)) (on_processor_nodes r))
                    INSERT_VALUES])
         \<and> (\<forall>n \<in> set (on_processor_nodes r).
               vec_run st (DDM1_Fill_Value r x L) x (global_offset n)
                 = psi (node_data r (node_ptr n))
               \<and> vec_run st (DDM1_Fill_Value r x L) L (global_offset n)
                 = 1 / (get_conductance r * volume n))
         \<and> (\<forall>i. i \<notin> global_offset ` set (on_processor_nodes r) \<longrightarrow>
               vec_run st (DDM1_Fill_Value r x L) x i = st x i
               \<and> vec_run st (DDM1_Fill_Value r x L) L i = st L i)
         \<and> (\<forall>v. v \<noteq> x \<and> v \<noteq> L \<longrightarrow> vec_run st (DDM1_Fill_Value r x L) v = st v)"
proof (cases "on_processor_nodes r = []")
  case True
  then show ?thesis
    by (simp add: DDM1_Fill_Value_calls vec_run_def)
next
  case False
  let ?ns = "on_processor_nodes r"
  have run_x: "vec_run st (DDM1_Fill_Value r x L) x =
      foldl (set_entry INSERT_VALUES) (st x)
        (zip (map global_offset ?ns) (map (\<lambda>n. psi (node_data r (node_ptr n))) ?ns))"
    using False xL by (simp add: DDM1_Fill_Value_calls vec_run_def)
  have run_L: "vec_run st (DDM1_Fill_Value r x L) L =
      foldl (set_entry INSERT_VALUES) (st L)
        (zip (map global_offset ?ns) (map (\<lambda>n. 1 / (get_conductance r * volume n)) ?ns))"
    using False xL by (simp add: DDM1_Fill_Value_calls vec_run_def)
  have run_v: "vec_run st (DDM1_Fill_Value r x L) v = st v" if "v \<noteq> x \<and> v \<noteq> L" for v
    using False that by (simp add: DDM1_Fill_Value_calls vec_run_def)
  have owned: "vec_run st (DDM1_Fill_Value r x L) x (global_offset n)
                 = psi (node_data r (node_ptr n))
               \<and> vec_run st (DDM1_Fill_Value r x L) L (global_offset n)
                 = 1 / (get_conductance r * volume n)" if "n \<in> set ?ns" for n
    unfolding run_x run_L using dist that by (simp add: foldl_insert_map)
  have other: "vec_run st (DDM1_Fill_Value r x L) x i = st x i
               \<and> vec_run st (DDM1_Fill_Value r x L) L i = st L i"
    if "i \<notin> global_offset ` set ?ns" for i
    unfolding run_x run_L using that by (simp add: foldl_insert_map_other)
  show ?thesis
    using owned other run_v by (simp add: DDM1_Fill_Value_calls)
qed

text \<open>
  The theorem at the example region, with every entry of every vector holding 7
  before the call: the entries of the owned node \<open>ex_B\<close> are overwritten, the entry
  at the offset of the ghost node \<open>ex_C\<close> keeps its 7.
\<close>

theorem DDM1_Fill_Value_writes_witness:
  "distinct (map global_offset (on_processor_nodes ex_region)) \<and> (0::nat) \<noteq> 1
   \<and> DDM1_Fill_Value ex_region (0::nat) 1 =
        [VecSetValues 0 [0, 1] [1 / 4, 3 / 4] INSERT_VALUES,
         VecSetValues 1 [0, 1] [1 / 5, 1 / 5] INSERT_VALUES]
   \<and> vec_run (\<lambda>v i. 7) (DDM1_Fill_Value ex_region (0::nat) 1) 0 (global_offset ex_B) = 3 / 4
   \<and> vec_run (\<lambda>v i. 7) (DDM1_Fill_Value ex_region (0::nat) 1) 1 (global_offset ex_B) = 1 / 5
   \<and> vec_run (\<lambda>v i. 7) (DDM1_Fill_Value ex_region (0::nat) 1) 0 (global_offset ex_C) = 7"
proof -
  have d: "distinct (map global_offset (on_processor_nodes ex_region))"
    by (simp add: ex_on_processor_nodes) (simp add: ex_defs)
  have n: "(0::nat) \<noteq> 1" by simp
  have c: "global_offset ex_C \<notin> global_offset ` set (on_processor_nodes ex_region)"
    by (simp add: ex_on_processor_nodes) (simp add: ex_defs)
  have b: "ex_B \<in> set (on_processor_nodes ex_region)"
    by (simp add: ex_on_processor_nodes)
  note t = DDM1_Fill_Value_writes [OF d n, of "\<lambda>v i. 7"]
  have 1: "DDM1_Fill_Value ex_region (0::nat) 1 =
        [VecSetValues 0 [0, 1] [1 / 4, 3 / 4] INSERT_VALUES,
         VecSetValues 1 [0, 1] [1 / 5, 1 / 5] INSERT_VALUES]"
    using t by (simp add: ex_on_processor_nodes) (simp add: ex_defs)
  have 2: "vec_run (\<lambda>v i. 7) (DDM1_Fill_Value ex_region (0::nat) 1) 0 (global_offset ex_B) = 3 / 4
     \<and> vec_run (\<lambda>v i. 7) (DDM1_Fill_Value ex_region (0::nat) 1) 1 (global_offset ex_B) = 1 / 5"
    using t b by (auto simp: ex_defs)
  have 3: "vec_run (\<lambda>v i. 7) (DDM1_Fill_Value ex_region (0::nat) 1) 0 (global_offset ex_C) = 7"
    using t c by blast
  show ?thesis using d n 1 2 3 by blast
qed

section \<open>Scaling of the auxiliary lumped elements\<close>

text \<open>
  Claim C5, as stated, at the example region (total capacitance 4, total resistance
  1/2): for the node counts 1 and 5 the products \<open>N * res\<close> are 1 and 15, and the
  products \<open>cap * N\<close> are 2 and 10/3; neither is constant in \<open>N\<close>, nor is
  \<open>cap * N\<close> a constant multiple of the total capacitance.
\<close>

theorem aux_scaling_counterexample:
  "real 1 * aux_res (ex_region\<lparr>total_nodes_in_connected_resistance_region := 1\<rparr>)
     \<noteq> real 5 * aux_res (ex_region\<lparr>total_nodes_in_connected_resistance_region := 5\<rparr>)
   \<and> aux_cap (ex_region\<lparr>total_nodes_in_connected_resistance_region := 1\<rparr>) * real 1
     \<noteq> aux_cap (ex_region\<lparr>total_nodes_in_connected_resistance_region := 5\<rparr>) * real 5"
  by (simp add: aux_res_def aux_cap_def ex_region_def)

text \<open>
  Claim C5, amended. The elements are scaled by \<open>N + 1\<close>, not by \<open>N\<close>: for every
  node count \<open>N\<close>, \<open>(N + 1) * cap\<close> is the total capacitance and \<open>res / (N + 1)\<close> is
  the total resistance, so \<open>N + 1\<close> of the per-node elements in parallel have the same
  total capacitance and resistance for every \<open>N\<close>.
\<close>

theorem aux_scaling:
  "real (total_nodes_in_connected_resistance_region r + 1) * aux_cap r = aux_capacitance r
   \<and> aux_res r / real (total_nodes_in_connected_resistance_region r + 1) = aux_resistance r"
  by (simp add: aux_cap_def aux_res_def)

section \<open>The residual buffers and the Jacobian calls, loop by loop\<close>

lemma Function_edge_eq:
  "Function_edge r x (T_external r) b e =
     (fst b @ map fst (spec_edge_residual r x e), snd b @ map snd (spec_edge_residual r x e))"
  by (simp add: Function_edge_def spec_edge_residual_def spec_flux_def Let_def)

lemma foldl_Function_edge:
  "foldl (Function_edge r x (T_external r)) b es =
     (fst b @ map fst (concat (map (spec_edge_residual r x) es)),
      snd b @ map snd (concat (map (spec_edge_residual r x) es)))"
  by (induction es arbitrary: b) (simp_all add: Function_edge_eq)

lemma Function_node_eq:
  "Function_node cfg r x (aux_cap r) (aux_res r) b n =
     (fst b @ [global_offset n],
      snd b @ [spec_aux_current cfg r (psi (node_data r (node_ptr n))) (x (local_offset n))])"
  by (simp add: Function_node_def spec_aux_current_def aux_cap_def aux_res_def Let_def add.commute)

lemma foldl_Function_node:
  "foldl (Function_node cfg r x (aux_cap r) (aux_res r)) b ns =
     (fst b @ map global_offset ns,
      snd b @ map (\<lambda>n. spec_aux_current cfg r (psi (node_data r (node_ptr n)))
                          (x (local_offset n))) ns)"
  by (induction ns arbitrary: b) (simp_all add: Function_node_eq)

lemma Function_buffers_eq:
  "Function_buffers cfg r x =
     (map fst (concat (map (spec_edge_residual r x) (region_edges r)))
        @ map global_offset (on_processor_nodes r),
      map snd (concat (map (spec_edge_residual r x) (region_edges r)))
        @ map (\<lambda>n. spec_aux_current cfg r (psi (node_data r (node_ptr n)))
                       (x (local_offset n))) (on_processor_nodes r))"
  by (simp add: Function_buffers_def Let_def foldl_Function_edge foldl_Function_node)

lemma DDM1_Function_calls:
  "fst (DDM1_Function cfg r x f flag) =
     assembly_guard f flag
     @ (if spec_residual_entries cfg r x = [] then []
        else [VecSetValues f (map fst (spec_residual_entries cfg r x))
                (map snd (spec_residual_entries cfg r x)) ADD_VALUES])"
  by (simp add: DDM1_Function_def Let_def Function_buffers_eq spec_residual_entries_def comp_def)

lemma vec_run_DDM1_Function:
  "vec_run st (fst (DDM1_Function cfg r x f flag)) f i =
     st f i + sum_list (map snd (filter (\<lambda>p. fst p = i) (spec_residual_entries cfg r x)))"
  by (simp add: DDM1_Function_calls vec_run_def vec_run_assembly_guard [unfolded vec_run_def]
        zip_map_fst_snd foldl_add_entries)

lemma foldl_append_calls:
  "foldl (\<lambda>cs e. cs @ g e) acc es = acc @ concat (map g es)"
  by (induction es arbitrary: acc) simp_all

lemma foldl_snoc_calls:
  "foldl (\<lambda>cs n. cs @ [g n]) acc ns = acc @ map g ns"
  by (induction ns arbitrary: acc) simp_all

lemma DDM1_Jacobian_calls:
  "fst (DDM1_Jacobian cfg r x flag) =
     concat (map (Jacobian_edge r x (T_external r)) (region_edges r))
       @ map (Jacobian_node cfg r x (aux_cap r) (aux_res r)) (on_processor_nodes r)"
  by (simp add: DDM1_Jacobian_def Let_def foldl_append_calls foldl_snoc_calls)

lemma edge_AD_field:
  "ad_div_real (ad_sub (setADValue 1 1 (AutoDScalar_of 2 V2)) (setADValue 0 1 (AutoDScalar_of 2 V1))) d
     = \<lparr>ad_val = (V2 - V1) / d, ad_dx = [- 1 / d, 1 / d]\<rparr>"
  by (simp add: ad_div_real_def ad_sub_def setADValue_def AutoDScalar_of_def numeral_2_eq_2)

lemma Jacobian_edge_neg:
  "Jacobian_edge r x T e =
     (let row = take 2 (getADValue (ad_mult_real (CurrentDensity_AD r
                  (ad_div_real (ad_sub (setADValue 1 1 (AutoDScalar_of 2 (x (local_offset (snd e)))))
                                       (setADValue 0 1 (AutoDScalar_of 2 (x (local_offset (fst e))))))
                     (distance r (node_ptr (fst e)) (node_ptr (snd e)))) T)
                  \<bar>cv_surface_area r (node_ptr (fst e)) (node_ptr (snd e))\<bar>))
      in (if on_processor (fst e)
          then [add_row (global_offset (fst e)) [global_offset (fst e), global_offset (snd e)] row]
          else [])
         @ (if on_processor (snd e)
            then [add_row (global_offset (snd e)) [global_offset (fst e), global_offset (snd e)]
                    (map uminus row)]
            else []))"
  by (simp add: Jacobian_edge_def Let_def getADValue_def ad_uminus_def take_map)

lemma node_AD_seed:
  "setADValue 0 1 (AutoDScalar_of 1 v) = \<lparr>ad_val = v, ad_dx = [1]\<rparr>"
  by (simp add: setADValue_def AutoDScalar_of_def)

lemma Jacobian_node_eq:
  "Jacobian_node cfg r x (aux_cap r) (aux_res r) n =
     add_entry (global_offset n) (global_offset n) (aux_dcurrent cfg r)"
  unfolding Jacobian_node_def node_AD_seed
  by (simp add: Let_def ad_sub_def ad_div_real_def real_mult_ad_def ad_sub_real_def
        getADValue_at_def aux_dcurrent_def aux_cap_def aux_res_def add.commute)


lemma spec_flux_DERIV:
  assumes "\<forall>E. ((\<lambda>E'. CurrentDensity r E' (T_external r)) has_real_derivative J' E) (at E)"
  shows "((\<lambda>v. spec_flux r e v V2) has_real_derivative flux_dV1 r J' e V1 V2) (at V1)"
    and "((\<lambda>v. spec_flux r e V1 v) has_real_derivative flux_dV2 r J' e V1 V2) (at V2)"
proof -
  let ?d = "distance r (node_ptr (fst e)) (node_ptr (snd e))"
  have J: "((\<lambda>E'. CurrentDensity r E' (T_external r)) has_real_derivative J' E) (at E)" for E
    using assms by blast
  have "((\<lambda>v. V2 - v) has_real_derivative - 1) (at V1)"
    by (auto intro!: derivative_eq_intros)
  then have g1: "((\<lambda>v. (V2 - v) / ?d) has_real_derivative (- 1 / ?d)) (at V1)"
    by (rule DERIV_cdivide)
  have "((\<lambda>v. v - V1) has_real_derivative 1) (at V2)"
    by (auto intro!: derivative_eq_intros)
  then have g2: "((\<lambda>v. (v - V1) / ?d) has_real_derivative (1 / ?d)) (at V2)"
    by (rule DERIV_cdivide)
  show "((\<lambda>v. spec_flux r e v V2) has_real_derivative flux_dV1 r J' e V1 V2) (at V1)"
    unfolding spec_flux_def flux_dV1_def
    by (rule DERIV_cmult_right) (rule DERIV_chain2 [OF J g1])
  show "((\<lambda>v. spec_flux r e V1 v) has_real_derivative flux_dV2 r J' e V1 V2) (at V2)"
    unfolding spec_flux_def flux_dV2_def
    by (rule DERIV_cmult_right) (rule DERIV_chain2 [OF J g2])
qed

lemma Jacobian_edge_eq:
  assumes "\<forall>a. CurrentDensity_AD r a (T_external r) =
               \<lparr>ad_val = CurrentDensity r (ad_val a) (T_external r),
                ad_dx = map (\<lambda>d. J' (ad_val a) * d) (ad_dx a)\<rparr>"
  shows "Jacobian_edge r x (T_external r) e =
           spec_edge_rows e
             (flux_dV1 r J' e (x (local_offset (fst e))) (x (local_offset (snd e))))
             (flux_dV2 r J' e (x (local_offset (fst e))) (x (local_offset (snd e))))"
  unfolding Jacobian_edge_neg edge_AD_field
  by (simp add: assms ad_mult_real_def getADValue_def spec_edge_rows_def flux_dV1_def
        flux_dV2_def Let_def)

lemma ex_entries:
  "spec_residual_entries ex_cfg ex_region ex_x =
     [(0, 1 / 10 ^ 5), (1, - (1 / 10 ^ 5)), (1, - (1 / 2 * (1 / 10 ^ 5))), (0, 1 / 2), (1, - (1 / 2))]"
  apply (simp add: spec_residual_entries_def ex_on_processor_nodes)
  apply (simp add: spec_edge_residual_def spec_flux_def spec_aux_current_def ex_defs)
  done

section \<open>Conservation across an edge\<close>



section \<open>The edge flux assembler\<close>

text \<open>
  Claim C2. Let the law \<open>J\<close> have the derivative \<open>J'\<close> in its field argument and
  let its overload on \<^verbatim>\<open>AutoDScalar\<close> propagate the tangents by the chain rule. Then
  \<^verbatim>\<open>DDM1_Function\<close> adds, in one call with \<^verbatim>\<open>ADD_VALUES\<close>, for every edge the entry
  \<open>+f\<close> at node 1 if node 1 is on-processor and \<open>-f\<close> at node 2 if node 2 is
  on-processor, where \<open>f = J((V2 - V1) / distance, T) * |area|\<close> (followed by the
  entries of the auxiliary elements); \<^verbatim>\<open>DDM1_Jacobian\<close> inserts for every edge the
  row \<open>[df/dV1, df/dV2]\<close> at row node 1 if node 1 is on-processor and its negation at
  row node 2 if node 2 is on-processor, both at the columns of node 1 and node 2; and
  the two entries of the row are the partial derivatives of \<open>f\<close>.
\<close>

theorem edge_flux_assembly:
  assumes J_deriv:
      "\<forall>E. ((\<lambda>E'. CurrentDensity r E' (T_external r)) has_real_derivative J' E) (at E)"
    and J_AD:
      "\<forall>a. CurrentDensity_AD r a (T_external r) =
             \<lparr>ad_val = CurrentDensity r (ad_val a) (T_external r),
              ad_dx = map (\<lambda>d. J' (ad_val a) * d) (ad_dx a)\<rparr>"
  shows "fst (DDM1_Function cfg r x f flag) =
           assembly_guard f flag
           @ (if spec_residual_entries cfg r x = [] then []
              else [VecSetValues f (map fst (spec_residual_entries cfg r x))
                      (map snd (spec_residual_entries cfg r x)) ADD_VALUES])
         \<and> fst (DDM1_Jacobian cfg r x flag) =
             concat (map (\<lambda>e. spec_edge_rows e
                            (flux_dV1 r J' e (x (local_offset (fst e))) (x (local_offset (snd e))))
                            (flux_dV2 r J' e (x (local_offset (fst e))) (x (local_offset (snd e)))))
                       (region_edges r))
             @ map (Jacobian_node cfg r x (aux_cap r) (aux_res r)) (on_processor_nodes r)
         \<and> (\<forall>e V1 V2.
               ((\<lambda>v. spec_flux r e v V2) has_real_derivative flux_dV1 r J' e V1 V2) (at V1)
               \<and> ((\<lambda>v. spec_flux r e V1 v) has_real_derivative flux_dV2 r J' e V1 V2) (at V2))"
proof -
  have "Jacobian_edge r x (T_external r) =
          (\<lambda>e. spec_edge_rows e
                  (flux_dV1 r J' e (x (local_offset (fst e))) (x (local_offset (snd e))))
                  (flux_dV2 r J' e (x (local_offset (fst e))) (x (local_offset (snd e)))))"
    by (rule ext) (rule Jacobian_edge_eq [OF J_AD])
  then have jac: "fst (DDM1_Jacobian cfg r x flag) =
             concat (map (\<lambda>e. spec_edge_rows e
                            (flux_dV1 r J' e (x (local_offset (fst e))) (x (local_offset (snd e))))
                            (flux_dV2 r J' e (x (local_offset (fst e))) (x (local_offset (snd e)))))
                       (region_edges r))
             @ map (Jacobian_node cfg r x (aux_cap r) (aux_res r)) (on_processor_nodes r)"
    by (simp add: DDM1_Jacobian_calls)
  show ?thesis
    using jac spec_flux_DERIV [OF J_deriv] by (simp add: DDM1_Function_calls)
qed

text \<open>
  The theorem at the example region with the linear law \<open>J = 10 * E\<close>: the first
  edge is the end-to-end scenario of the specification, with residual entries
  \<open>1e-5\<close> and \<open>-1e-5\<close> and the Jacobian row \<open>[-1e-5, 1e-5]\<close> and its negation;
  the second edge ends in a ghost node and gives one entry and one row.
\<close>

theorem edge_flux_assembly_witness:
  "(\<forall>E. ((\<lambda>E'. CurrentDensity ex_region E' (T_external ex_region)) has_real_derivative 10) (at E))
   \<and> (\<forall>a. CurrentDensity_AD ex_region a (T_external ex_region) =
            \<lparr>ad_val = CurrentDensity ex_region (ad_val a) (T_external ex_region),
             ad_dx = map (\<lambda>d. 10 * d) (ad_dx a)\<rparr>)
   \<and> fst (DDM1_Function ex_cfg ex_region ex_x (0::nat) INSERT_VALUES) =
        [VecAssemblyBegin 0, VecAssemblyEnd 0,
         VecSetValues 0 [0, 1, 1, 0, 1]
           [1 / 10 ^ 5, - (1 / 10 ^ 5), - (1 / 2 * (1 / 10 ^ 5)), 1 / 2, - (1 / 2)] ADD_VALUES]
   \<and> fst (DDM1_Jacobian ex_cfg ex_region ex_x INSERT_VALUES) =
        [add_row 0 [0, 1] [- (1 / 10 ^ 5), 1 / 10 ^ 5],
         add_row 1 [0, 1] [1 / 10 ^ 5, - (1 / 10 ^ 5)],
         add_row 1 [1, 2] [- (1 / 10 ^ 5), 1 / 10 ^ 5],
         add_entry 0 0 (- 2), add_entry 1 1 (- 2)]"
proof -
  have h1: "\<forall>E. ((\<lambda>E'. CurrentDensity ex_region E' (T_external ex_region))
                 has_real_derivative (\<lambda>E. 10) E) (at E)"
    by (auto simp: ex_region_def intro!: derivative_eq_intros)
  have h2: "\<forall>a. CurrentDensity_AD ex_region a (T_external ex_region) =
         \<lparr>ad_val = CurrentDensity ex_region (ad_val a) (T_external ex_region),
          ad_dx = map (\<lambda>d. (\<lambda>E. 10) (ad_val a) * d) (ad_dx a)\<rparr>"
    by (simp add: ex_region_def)
  note t = edge_flux_assembly [where r = ex_region and J' = "\<lambda>E. 10" and cfg = ex_cfg
      and x = ex_x and f = "0::nat" and flag = INSERT_VALUES, OF h1 h2]
  have f: "fst (DDM1_Function ex_cfg ex_region ex_x (0::nat) INSERT_VALUES) =
        [VecAssemblyBegin 0, VecAssemblyEnd 0,
         VecSetValues 0 [0, 1, 1, 0, 1]
           [1 / 10 ^ 5, - (1 / 10 ^ 5), - (1 / 2 * (1 / 10 ^ 5)), 1 / 2, - (1 / 2)] ADD_VALUES]"
    using t by (simp add: ex_entries assembly_guard_def)
  have j: "fst (DDM1_Jacobian ex_cfg ex_region ex_x INSERT_VALUES) =
        [add_row 0 [0, 1] [- (1 / 10 ^ 5), 1 / 10 ^ 5],
         add_row 1 [0, 1] [1 / 10 ^ 5, - (1 / 10 ^ 5)],
         add_row 1 [1, 2] [- (1 / 10 ^ 5), 1 / 10 ^ 5],
         add_entry 0 0 (- 2), add_entry 1 1 (- 2)]"
    using t
    apply (simp add: ex_on_processor_nodes Jacobian_node_eq)
    apply (simp add: spec_edge_rows_def flux_dV1_def flux_dV2_def aux_dcurrent_def ex_defs)
    done
  show ?thesis
    using h1 h2 f j by simp
qed

section \<open>The auxiliary lumped-element model\<close>

lemma spec_aux_current_DERIV:
  "((\<lambda>v. spec_aux_current cfg r V_prev v) has_real_derivative aux_dcurrent cfg r) (at V)"
proof -
  let ?cap = "aux_capacitance r / (real (total_nodes_in_connected_resistance_region r) + 1)"
  let ?res = "aux_resistance r * (real (total_nodes_in_connected_resistance_region r) + 1)"
  have d: "((\<lambda>v. v - V_prev) has_real_derivative 1) (at V)"
    by (auto intro!: derivative_eq_intros)
  have "((\<lambda>v. - ?cap * (v - V_prev)) has_real_derivative - ?cap * 1) (at V)"
    by (rule DERIV_cmult [OF d])
  then have a: "((\<lambda>v. - ?cap * (v - V_prev) / dt cfg) has_real_derivative - ?cap * 1 / dt cfg) (at V)"
    by (rule DERIV_cdivide)
  have b: "((\<lambda>v. (v - V_prev) / ?res) has_real_derivative 1 / ?res) (at V)"
    by (rule DERIV_cdivide [OF d])
  have "((\<lambda>v. - ?cap * (v - V_prev) / dt cfg - (v - V_prev) / ?res)
           has_real_derivative - ?cap * 1 / dt cfg - 1 / ?res) (at V)"
    by (rule DERIV_diff [OF a b])
  then show ?thesis
    by (simp add: spec_aux_current_def aux_dcurrent_def)
qed

text \<open>
  Claim C4. \<^verbatim>\<open>DDM1_Function\<close> hands to \<^verbatim>\<open>VecSetValues\<close> on the residual vector \<open>f\<close>,
  with \<^verbatim>\<open>ADD_VALUES\<close>, the entries of the edges followed by one entry for every
  on-processor node, at the node's global offset, with the value
  \<open>current = -cap * (V - V_prev) / dt - (V - V_prev) / res\<close>, where
  \<open>cap = capacitance / (networkNodeCount + 1)\<close>,
  \<open>res = resistance * (networkNodeCount + 1)\<close>, \<open>V\<close> is the entry of \<open>x\<close> at the
  node's local offset and \<open>V_prev\<close> the stored potential \<^verbatim>\<open>psi()\<close> of the node. After
  the calls of the routine an entry of \<open>f\<close> holds what it held before, plus the
  edge entries at that index, plus \<open>current\<close> of every on-processor node with that
  global offset. \<^verbatim>\<open>DDM1_Jacobian\<close> issues, after the rows of the edges, one call for
  every on-processor node: an addition to the diagonal entry (row and column the
  node's global offset) of the derivative of \<open>current\<close> in \<open>V\<close>, and no other call.
\<close>

theorem aux_lumped_elements:
  "fst (DDM1_Function cfg r x f flag) =
     assembly_guard f flag
     @ (if concat (map (spec_edge_residual r x) (region_edges r)) = []
           \<and> on_processor_nodes r = []
        then []
        else [VecSetValues f
                (map fst (concat (map (spec_edge_residual r x) (region_edges r)))
                   @ map global_offset (on_processor_nodes r))
                (map snd (concat (map (spec_edge_residual r x) (region_edges r)))
                   @ map (\<lambda>n. spec_aux_current cfg r (psi (node_data r (node_ptr n)))
                                  (x (local_offset n))) (on_processor_nodes r))
                ADD_VALUES])
   \<and> (\<forall>st i. vec_run st (fst (DDM1_Function cfg r x f flag)) f i =
         st f i
         + sum_list (map snd (filter (\<lambda>p. fst p = i)
                                (concat (map (spec_edge_residual r x) (region_edges r)))))
         + sum_list (map (\<lambda>n. spec_aux_current cfg r (psi (node_data r (node_ptr n)))
                                 (x (local_offset n)))
                       (filter (\<lambda>n. global_offset n = i) (on_processor_nodes r))))
   \<and> Function_buffers cfg r x =
     (map fst (concat (map (spec_edge_residual r x) (region_edges r)))
        @ map global_offset (on_processor_nodes r),
      map snd (concat (map (spec_edge_residual r x) (region_edges r)))
        @ map (\<lambda>n. spec_aux_current cfg r (psi (node_data r (node_ptr n)))
                       (x (local_offset n))) (on_processor_nodes r))
   \<and> fst (DDM1_Jacobian cfg r x flag) =
       concat (map (Jacobian_edge r x (T_external r)) (region_edges r))
       @ map (\<lambda>n. add_entry (global_offset n) (global_offset n) (aux_dcurrent cfg r))
           (on_processor_nodes r)
   \<and> (\<forall>V_prev V.
         ((\<lambda>v. spec_aux_current cfg r V_prev v) has_real_derivative aux_dcurrent cfg r) (at V))"
proof -
  let ?E = "concat (map (spec_edge_residual r x) (region_edges r))"
  let ?cur = "\<lambda>n. spec_aux_current cfg r (psi (node_data r (node_ptr n))) (x (local_offset n))"
  have calls: "fst (DDM1_Function cfg r x f flag) =
     assembly_guard f flag
     @ (if ?E = [] \<and> on_processor_nodes r = [] then []
        else [VecSetValues f (map fst ?E @ map global_offset (on_processor_nodes r))
                (map snd ?E @ map ?cur (on_processor_nodes r)) ADD_VALUES])"
    by (simp add: DDM1_Function_calls spec_residual_entries_def comp_def)
  have filt: "map snd (filter (\<lambda>p. fst p = i) (map (\<lambda>n. (global_offset n, ?cur n)) ns))
                = map ?cur (filter (\<lambda>n. global_offset n = i) ns)" for i ns
    by (induction ns) simp_all
  have eff: "vec_run st (fst (DDM1_Function cfg r x f flag)) f i =
         st f i + sum_list (map snd (filter (\<lambda>p. fst p = i) ?E))
         + sum_list (map ?cur (filter (\<lambda>n. global_offset n = i) (on_processor_nodes r)))"
    for st i
    by (simp add: vec_run_DDM1_Function spec_residual_entries_def filt)
  show ?thesis
    using calls eff
    by (simp add: Function_buffers_eq DDM1_Jacobian_calls Jacobian_node_eq
          spec_aux_current_DERIV)
qed

section \<open>The pseudo-transient stabilizer\<close>

lemma pseudo_cap_eq: "pseudo_cap cfg r (get_conductance r) n = spec_pseudo_cap cfg r n"
  by (simp add: pseudo_cap_def spec_pseudo_cap_def n_node_def)

lemma Pseudo_Function_node_eq:
  "Pseudo_Function_node cfg r x f (get_conductance r) n =
     VecSetValue f (global_offset n)
       (spec_pseudo_term cfg r n (psi (node_data r (node_ptr n))) (x (local_offset n)))
       ADD_VALUES"
  by (simp add: Pseudo_Function_node_def Let_def pseudo_cap_eq spec_pseudo_term_def)

lemma Pseudo_Jacobian_node_eq:
  "Pseudo_Jacobian_node cfg r x (get_conductance r) n =
     add_entry (global_offset n) (global_offset n) (pseudo_dterm cfg r n)"
  unfolding Pseudo_Jacobian_node_def node_AD_seed
  by (simp add: Let_def ad_div_real_def real_mult_ad_def ad_sub_real_def getADValue_at_def
        pseudo_cap_eq pseudo_dterm_def)

lemma spec_pseudo_term_DERIV:
  "((\<lambda>v. spec_pseudo_term cfg r n V_prev v) has_real_derivative pseudo_dterm cfg r n) (at V)"
proof -
  have d: "((\<lambda>v. v - V_prev) has_real_derivative 1) (at V)"
    by (auto intro!: derivative_eq_intros)
  have "((\<lambda>v. - spec_pseudo_cap cfg r n * (v - V_prev))
           has_real_derivative - spec_pseudo_cap cfg r n * 1) (at V)"
    by (rule DERIV_cmult [OF d])
  then have "((\<lambda>v. - spec_pseudo_cap cfg r n * (v - V_prev) / PseudoTimeStepMetal cfg)
           has_real_derivative - spec_pseudo_cap cfg r n * 1 / PseudoTimeStepMetal cfg) (at V)"
    by (rule DERIV_cdivide)
  then show ?thesis
    by (simp add: spec_pseudo_term_def pseudo_dterm_def)
qed

lemma DDM1_Pseudo_Time_Step_Function_calls:
  "fst (DDM1_Pseudo_Time_Step_Function cfg r x f flag) =
     assembly_guard f flag
     @ (if connect_to_low_resistance_solderpad r then []
        else map (\<lambda>n. VecSetValue f (global_offset n)
                         (spec_pseudo_term cfg r n (psi (node_data r (node_ptr n)))
                            (x (local_offset n)))
                         ADD_VALUES) (on_processor_nodes r))"
  by (simp add: DDM1_Pseudo_Time_Step_Function_def Let_def foldl_snoc_calls
        Pseudo_Function_node_eq)

lemma DDM1_Pseudo_Time_Step_Jacobian_calls:
  "fst (DDM1_Pseudo_Time_Step_Jacobian cfg r x flag) =
     (if connect_to_low_resistance_solderpad r then []
      else map (\<lambda>n. add_entry (global_offset n) (global_offset n) (pseudo_dterm cfg r n))
             (on_processor_nodes r))"
  by (simp add: DDM1_Pseudo_Time_Step_Jacobian_def Let_def foldl_snoc_calls
        Pseudo_Jacobian_node_eq)

text \<open>
  Claim C6. \<^verbatim>\<open>DDM1_Pseudo_Time_Step_Function\<close> adds, for every on-processor node, the
  term \<open>f = -cap * (V - V_prev) / pseudoTimeStep\<close> at the node's global offset, with
  \<open>cap = conductance * (nodeVolume * zWidth)^(1/3) * pseudoTimeConstant / zWidth /
  totalNodesInRegion\<close>; \<^verbatim>\<open>DDM1_Pseudo_Time_Step_Jacobian\<close> adds the derivative of
  \<open>f\<close> in \<open>V\<close> to the diagonal entry of the node and issues no other call. For a
  region connected to a low-resistance solder pad neither routine adds a term.
\<close>

theorem pseudo_time_step_term:
  "fst (DDM1_Pseudo_Time_Step_Function cfg r x f flag) =
     assembly_guard f flag
     @ (if connect_to_low_resistance_solderpad r then []
        else map (\<lambda>n. VecSetValue f (global_offset n)
                         (spec_pseudo_term cfg r n (psi (node_data r (node_ptr n)))
                            (x (local_offset n)))
                         ADD_VALUES) (on_processor_nodes r))
   \<and> fst (DDM1_Pseudo_Time_Step_Jacobian cfg r x flag) =
       (if connect_to_low_resistance_solderpad r then []
        else map (\<lambda>n. add_entry (global_offset n) (global_offset n) (pseudo_dterm cfg r n))
               (on_processor_nodes r))
   \<and> (\<forall>n V_prev V.
         ((\<lambda>v. spec_pseudo_term cfg r n V_prev v) has_real_derivative pseudo_dterm cfg r n)
           (at V))"
  by (simp add: DDM1_Pseudo_Time_Step_Function_calls DDM1_Pseudo_Time_Step_Jacobian_calls
        spec_pseudo_term_DERIV)

lemma Convergence_Test_node_eq:
  "Convergence_Test_node cfg r x (get_conductance r) k n =
     (if spec_unconverged cfg r x n then k + 1 else k)"
  by (simp add: Convergence_Test_node_def Let_def pseudo_cap_eq spec_unconverged_def
        spec_fAbs_def spec_relChange_def spec_abs_tol_def)

lemma foldl_Convergence_Test_node:
  "foldl (Convergence_Test_node cfg r x (get_conductance r)) k ns =
     k + length (filter (spec_unconverged cfg r x) ns)"
  by (induction ns arbitrary: k) (simp_all add: Convergence_Test_node_eq)

lemma DDM1_Pseudo_Time_Step_Convergence_Test_eq:
  "DDM1_Pseudo_Time_Step_Convergence_Test cfg r x =
     (if connect_to_low_resistance_solderpad r then 0
      else length (filter (spec_unconverged cfg r x) (on_processor_nodes r)))"
  by (simp add: DDM1_Pseudo_Time_Step_Convergence_Test_def Let_def foldl_Convergence_Test_node)

lemma ex_pseudo_cap: "spec_pseudo_cap cfg ex_region ex_A = 5 / 3 * PseudoTimeCMOSTime cfg"
  "spec_pseudo_cap cfg ex_region ex_B = 5 / 3 * PseudoTimeCMOSTime cfg"
  by (simp_all add: spec_pseudo_cap_def ex_region_def ex_A_def ex_B_def ex_C_def)

text \<open>
  Claim C7. \<^verbatim>\<open>DDM1_Pseudo_Time_Step_Convergence_Test\<close> returns the number of
  on-processor nodes for which both \<open>fAbs\<close> is strictly greater than the relaxed
  absolute tolerance and \<open>relChange\<close> is strictly greater than the relative tolerance
  (for a region connected to a low-resistance solder pad it returns 0 without
  counting). The loop body increments the counter exactly under this condition: a
  node with both quantities equal to their thresholds leaves the counter as it is, a
  node strictly above both increments it.
\<close>

theorem convergence_test_count:
  "DDM1_Pseudo_Time_Step_Convergence_Test cfg r x =
     (if connect_to_low_resistance_solderpad r then 0
      else length (filter (spec_unconverged cfg r x) (on_processor_nodes r)))
   \<and> (\<forall>k n. Convergence_Test_node cfg r x (get_conductance r) k n =
         (if spec_fAbs cfg r n (psi (node_data r (node_ptr n))) (x (local_offset n))
               > spec_abs_tol cfg
             \<and> spec_relChange cfg r n (psi (node_data r (node_ptr n))) (x (local_offset n))
               > relative_toler cfg
          then k + 1 else k))
   \<and> (\<forall>k n. spec_fAbs cfg r n (psi (node_data r (node_ptr n))) (x (local_offset n))
               = spec_abs_tol cfg
             \<and> spec_relChange cfg r n (psi (node_data r (node_ptr n))) (x (local_offset n))
               = relative_toler cfg
         \<longrightarrow> Convergence_Test_node cfg r x (get_conductance r) k n = k)
   \<and> (\<forall>k n. spec_fAbs cfg r n (psi (node_data r (node_ptr n))) (x (local_offset n))
               > spec_abs_tol cfg
             \<and> spec_relChange cfg r n (psi (node_data r (node_ptr n))) (x (local_offset n))
               > relative_toler cfg
         \<longrightarrow> Convergence_Test_node cfg r x (get_conductance r) k n = k + 1)"
  by (simp add: DDM1_Pseudo_Time_Step_Convergence_Test_eq Convergence_Test_node_eq
        spec_unconverged_def)

text \<open>
  The theorem at the example region. With \<open>ex_boundary_cfg\<close> and
  \<open>ex_boundary_x\<close> the node \<open>ex_A\<close> sits exactly on both thresholds and is not
  counted; with \<open>ex_strict_cfg\<close> and \<open>ex_x\<close> it is strictly above both and is
  counted, as is \<open>ex_B\<close>.
\<close>

theorem convergence_test_count_witness:
  "spec_fAbs ex_boundary_cfg ex_region ex_A (psi (node_data ex_region (node_ptr ex_A)))
       (ex_boundary_x (local_offset ex_A)) = spec_abs_tol ex_boundary_cfg
   \<and> spec_relChange ex_boundary_cfg ex_region ex_A (psi (node_data ex_region (node_ptr ex_A)))
       (ex_boundary_x (local_offset ex_A)) = relative_toler ex_boundary_cfg
   \<and> Convergence_Test_node ex_boundary_cfg ex_region ex_boundary_x
       (get_conductance ex_region) 0 ex_A = 0
   \<and> DDM1_Pseudo_Time_Step_Convergence_Test ex_boundary_cfg ex_region ex_boundary_x = 0
   \<and> spec_fAbs ex_strict_cfg ex_region ex_A (psi (node_data ex_region (node_ptr ex_A)))
       (ex_x (local_offset ex_A)) > spec_abs_tol ex_strict_cfg
   \<and> spec_relChange ex_strict_cfg ex_region ex_A (psi (node_data ex_region (node_ptr ex_A)))
       (ex_x (local_offset ex_A)) > relative_toler ex_strict_cfg
   \<and> Convergence_Test_node ex_strict_cfg ex_region ex_x (get_conductance ex_region) 0 ex_A = 1
   \<and> DDM1_Pseudo_Time_Step_Convergence_Test ex_strict_cfg ex_region ex_x = 2"
proof -
  note b = convergence_test_count [of ex_boundary_cfg ex_region ex_boundary_x]
  note s = convergence_test_count [of ex_strict_cfg ex_region ex_x]
  have pad: "\<not> connect_to_low_resistance_solderpad ex_region"
    by (simp add: ex_region_def)
  have b1: "spec_fAbs ex_boundary_cfg ex_region ex_A (psi (node_data ex_region (node_ptr ex_A)))
       (ex_boundary_x (local_offset ex_A)) = spec_abs_tol ex_boundary_cfg"
    by (simp add: spec_fAbs_def ex_pseudo_cap spec_abs_tol_def)
       (simp add: ex_defs)
  have b2: "spec_relChange ex_boundary_cfg ex_region ex_A
       (psi (node_data ex_region (node_ptr ex_A)))
       (ex_boundary_x (local_offset ex_A)) = relative_toler ex_boundary_cfg"
    by (simp add: spec_relChange_def ex_pseudo_cap)
       (simp add: ex_defs)
  have b3: "Convergence_Test_node ex_boundary_cfg ex_region ex_boundary_x
       (get_conductance ex_region) 0 ex_A = 0"
    using b b1 b2 by blast
  have b4: "DDM1_Pseudo_Time_Step_Convergence_Test ex_boundary_cfg ex_region ex_boundary_x = 0"
    using b pad
    apply (simp add: ex_on_processor_nodes spec_unconverged_def b1 b2)
    apply (simp add: spec_fAbs_def spec_relChange_def ex_pseudo_cap spec_abs_tol_def)
    apply (simp add: ex_defs)
    done
  have s1: "spec_fAbs ex_strict_cfg ex_region ex_A (psi (node_data ex_region (node_ptr ex_A)))
       (ex_x (local_offset ex_A)) > spec_abs_tol ex_strict_cfg"
    by (simp add: spec_fAbs_def ex_pseudo_cap spec_abs_tol_def)
       (simp add: ex_defs)
  have s2: "spec_relChange ex_strict_cfg ex_region ex_A
       (psi (node_data ex_region (node_ptr ex_A)))
       (ex_x (local_offset ex_A)) > relative_toler ex_strict_cfg"
    by (simp add: spec_relChange_def ex_pseudo_cap)
       (simp add: ex_defs)
  have s3: "Convergence_Test_node ex_strict_cfg ex_region ex_x (get_conductance ex_region) 0 ex_A = 1"
    using s s1 s2 by simp
  have s4: "DDM1_Pseudo_Time_Step_Convergence_Test ex_strict_cfg ex_region ex_x = 2"
    using s pad
    apply (simp add: ex_on_processor_nodes spec_unconverged_def s1 s2)
    apply (simp add: spec_fAbs_def spec_relChange_def ex_pseudo_cap spec_abs_tol_def)
    apply (simp add: ex_defs)
    done
  show ?thesis
    using b1 b2 b3 b4 s1 s2 s3 s4 by blast
qed

section \<open>Regions connected to a low-resistance solder pad\<close>

lemma ex_pad_on_processor_nodes: "on_processor_nodes ex_pad_region = [ex_A, ex_B]"
  by (simp add: on_processor_nodes_def ex_defs)

lemma ex_pad_entries:
  "spec_residual_entries ex_cfg ex_pad_region ex_x = [(0, 1 / 2), (1, - (1 / 2))]"
  apply (simp add: spec_residual_entries_def ex_pad_on_processor_nodes)
  apply (simp add: spec_aux_current_def ex_defs)
  done

text \<open>
  Claim C3, as stated, at the example region \<open>ex_pad_region\<close>, whose flag is set and
  which has no edges: \<^verbatim>\<open>DDM1_Function\<close> still adds the currents of the auxiliary
  elements, \<open>1/2\<close> and \<open>-1/2\<close>, to the residual (starting from the zero vector the
  entry of the first node becomes \<open>1/2\<close>), and \<^verbatim>\<open>DDM1_Jacobian\<close> still adds their
  derivative \<open>-2\<close> to both diagonal entries.
\<close>

theorem pad_bypass_counterexample:
  "connect_to_low_resistance_solderpad ex_pad_region
   \<and> fst (DDM1_Function ex_cfg ex_pad_region ex_x (0::nat) ADD_VALUES) =
       [VecSetValues 0 [0, 1] [1 / 2, - (1 / 2)] ADD_VALUES]
   \<and> vec_run (\<lambda>v i. 0) (fst (DDM1_Function ex_cfg ex_pad_region ex_x (0::nat) ADD_VALUES)) 0 0
       = 1 / 2
   \<and> fst (DDM1_Jacobian ex_cfg ex_pad_region ex_x ADD_VALUES) =
       [add_entry 0 0 (- 2), add_entry 1 1 (- 2)]
   \<and> mat_run (\<lambda>i j. 0) (fst (DDM1_Jacobian ex_cfg ex_pad_region ex_x ADD_VALUES)) 0 0 = - 2"
proof -
  have p: "connect_to_low_resistance_solderpad ex_pad_region"
    by (simp add: ex_pad_region_def)
  have f: "fst (DDM1_Function ex_cfg ex_pad_region ex_x (0::nat) ADD_VALUES) =
       [VecSetValues 0 [0, 1] [1 / 2, - (1 / 2)] ADD_VALUES]"
    by (simp add: DDM1_Function_calls ex_pad_entries assembly_guard_def)
  have fv: "vec_run (\<lambda>v i. 0) (fst (DDM1_Function ex_cfg ex_pad_region ex_x (0::nat) ADD_VALUES))
              0 0 = 1 / 2"
    by (simp add: f vec_run_def set_entry_ADD)
  have j: "fst (DDM1_Jacobian ex_cfg ex_pad_region ex_x ADD_VALUES) =
       [add_entry 0 0 (- 2), add_entry 1 1 (- 2)]"
    apply (simp add: DDM1_Jacobian_calls ex_pad_on_processor_nodes Jacobian_node_eq)
    apply (simp add: aux_dcurrent_def ex_defs)
    done
  have jv: "mat_run (\<lambda>i j. 0) (fst (DDM1_Jacobian ex_cfg ex_pad_region ex_x ADD_VALUES)) 0 0 = - 2"
    by (simp add: j mat_run_def mat_add_def)
  show ?thesis
    using p f fv j jv by blast
qed

text \<open>
  Claim C3, amended. For a region whose low-resistance-solderpad flag is set, the
  pseudo-transient stabilizer contributes nothing: \<^verbatim>\<open>DDM1_Pseudo_Time_Step_Function\<close>
  issues no call beyond the assembly guard and leaves every vector as it is,
  \<^verbatim>\<open>DDM1_Pseudo_Time_Step_Jacobian\<close> issues no call and leaves the matrix as it is, and
  \<^verbatim>\<open>DDM1_Pseudo_Time_Step_Convergence_Test\<close> returns 0. The auxiliary lumped-element
  terms are not bypassed: \<^verbatim>\<open>DDM1_Function\<close> and \<^verbatim>\<open>DDM1_Jacobian\<close> do not read the
  flag and do for the flagged region exactly what they do for the same region with
  the flag cleared.
\<close>

theorem pad_bypass:
  assumes pad: "connect_to_low_resistance_solderpad r"
  shows "fst (DDM1_Pseudo_Time_Step_Function cfg r x f flag) = assembly_guard f flag
         \<and> vec_run st (fst (DDM1_Pseudo_Time_Step_Function cfg r x f flag)) = st
         \<and> fst (DDM1_Pseudo_Time_Step_Jacobian cfg r x flag) = []
         \<and> mat_run jac (fst (DDM1_Pseudo_Time_Step_Jacobian cfg r x flag)) = jac
         \<and> DDM1_Pseudo_Time_Step_Convergence_Test cfg r x = 0
         \<and> DDM1_Function cfg r x f flag =
             DDM1_Function cfg (r\<lparr>connect_to_low_resistance_solderpad := False\<rparr>) x f flag
         \<and> DDM1_Jacobian cfg r x flag =
             DDM1_Jacobian cfg (r\<lparr>connect_to_low_resistance_solderpad := False\<rparr>) x flag"
proof -
  have F: "fst (DDM1_Pseudo_Time_Step_Function cfg r x f flag) = assembly_guard f flag"
    using pad by (simp add: DDM1_Pseudo_Time_Step_Function_calls)
  have J: "fst (DDM1_Pseudo_Time_Step_Jacobian cfg r x flag) = []"
    using pad by (simp add: DDM1_Pseudo_Time_Step_Jacobian_calls)
  have C: "DDM1_Pseudo_Time_Step_Convergence_Test cfg r x = 0"
    using pad by (simp add: DDM1_Pseudo_Time_Step_Convergence_Test_def)
  let ?r = "r\<lparr>connect_to_low_resistance_solderpad := False\<rparr>"
  have fe: "Function_edge ?r = Function_edge r"
    by (intro ext) (simp add: Function_edge_def)
  have fn: "Function_node cfg ?r = Function_node cfg r"
    by (intro ext) (simp add: Function_node_def)
  have je: "Jacobian_edge ?r = Jacobian_edge r"
    by (intro ext) (simp add: Jacobian_edge_def)
  have jn: "Jacobian_node cfg ?r = Jacobian_node cfg r"
    by (intro ext) (simp add: Jacobian_node_def)
  have buf: "Function_buffers cfg ?r x = Function_buffers cfg r x"
    by (simp add: Function_buffers_def fe fn on_processor_nodes_def aux_cap_def aux_res_def)
  have DF: "DDM1_Function cfg r x f flag = DDM1_Function cfg ?r x f flag"
    by (simp add: DDM1_Function_def buf)
  have DJ: "DDM1_Jacobian cfg r x flag = DDM1_Jacobian cfg ?r x flag"
    by (simp add: DDM1_Jacobian_def je jn on_processor_nodes_def aux_cap_def aux_res_def)
  show ?thesis
    using DF DJ by (simp add: F J C vec_run_assembly_guard mat_run_def)
qed

text \<open>
  The theorem at \<open>ex_pad_region\<close>, entered in overwrite mode: the residual routine
  of the stabilizer only assembles, the Jacobian routine does nothing, the test
  returns 0 although both owned nodes exceed the thresholds of \<open>ex_strict_cfg\<close>, and
  the unflagged region receives the same auxiliary entries.
\<close>

theorem pad_bypass_witness:
  "connect_to_low_resistance_solderpad ex_pad_region
   \<and> fst (DDM1_Pseudo_Time_Step_Function ex_cfg ex_pad_region ex_x (0::nat) INSERT_VALUES)
       = [VecAssemblyBegin 0, VecAssemblyEnd 0]
   \<and> fst (DDM1_Pseudo_Time_Step_Jacobian ex_cfg ex_pad_region ex_x INSERT_VALUES) = []
   \<and> DDM1_Pseudo_Time_Step_Convergence_Test ex_strict_cfg ex_pad_region ex_x = 0
   \<and> fst (DDM1_Function ex_cfg (ex_pad_region\<lparr>connect_to_low_resistance_solderpad := False\<rparr>)
            ex_x (0::nat) ADD_VALUES)
       = [VecSetValues 0 [0, 1] [1 / 2, - (1 / 2)] ADD_VALUES]"
proof -
  have p: "connect_to_low_resistance_solderpad ex_pad_region"
    by (simp add: ex_pad_region_def)
  note t = pad_bypass [OF p]
  have 1: "fst (DDM1_Pseudo_Time_Step_Function ex_cfg ex_pad_region ex_x (0::nat) INSERT_VALUES)
       = [VecAssemblyBegin 0, VecAssemblyEnd 0]"
    using t [of ex_cfg ex_x "0::nat" INSERT_VALUES] by (simp add: assembly_guard_def)
  have 2: "fst (DDM1_Pseudo_Time_Step_Jacobian ex_cfg ex_pad_region ex_x INSERT_VALUES) = []"
    using t [of ex_cfg ex_x "0::nat" INSERT_VALUES] by blast
  have 3: "DDM1_Pseudo_Time_Step_Convergence_Test ex_strict_cfg ex_pad_region ex_x = 0"
    using t [of ex_strict_cfg ex_x "0::nat" INSERT_VALUES] by blast
  have e: "DDM1_Function ex_cfg ex_pad_region ex_x (0::nat) ADD_VALUES =
          DDM1_Function ex_cfg (ex_pad_region\<lparr>connect_to_low_resistance_solderpad := False\<rparr>)
            ex_x (0::nat) ADD_VALUES"
    using t [of ex_cfg ex_x "0::nat" ADD_VALUES] by blast
  have v: "fst (DDM1_Function ex_cfg ex_pad_region ex_x (0::nat) ADD_VALUES)
       = [VecSetValues 0 [0, 1] [1 / 2, - (1 / 2)] ADD_VALUES]"
    by (simp add: DDM1_Function_calls ex_pad_entries assembly_guard_def)
  have 4: "fst (DDM1_Function ex_cfg
            (ex_pad_region\<lparr>connect_to_low_resistance_solderpad := False\<rparr>) ex_x (0::nat) ADD_VALUES)
       = [VecSetValues 0 [0, 1] [1 / 2, - (1 / 2)] ADD_VALUES]"
    using e v by simp
  show ?thesis
    using p 1 2 3 4 by blast
qed

section \<open>The insertion-mode guard\<close>

lemma list_all_additive_pseudo:
  "list_all (additive_write f)
     (map (\<lambda>n. VecSetValue f (g n) (h n) ADD_VALUES) ns)"
  by (induction ns) simp_all

lemma additive_DDM1_Function:
  "list_all (additive_write f)
     (if spec_residual_entries cfg r x = [] then []
      else [VecSetValues f (map fst (spec_residual_entries cfg r x))
              (map snd (spec_residual_entries cfg r x)) ADD_VALUES])"
  by simp

lemma additive_Pseudo:
  "list_all (additive_write f)
     (if connect_to_low_resistance_solderpad r then []
      else map (\<lambda>n. VecSetValue f (global_offset n)
                       (spec_pseudo_term cfg r n (psi (node_data r (node_ptr n)))
                          (x (local_offset n)))
                       ADD_VALUES) (on_processor_nodes r))"
  by (simp add: list_all_additive_pseudo)

text \<open>
  Claim C8, as stated, at the example regions: entered with the flag unset
  (\<^verbatim>\<open>NOT_SET_VALUES\<close>), \<^verbatim>\<open>DDM1_Function\<close> issues its additive write with no assembly
  call before it; and for the pad-connected region the two pseudo time step routines,
  entered in overwrite mode, return with the flag still \<^verbatim>\<open>INSERT_VALUES\<close>.
\<close>

theorem insertion_mode_counterexample:
  "fst (DDM1_Function ex_cfg ex_region ex_x (0::nat) NOT_SET_VALUES) =
     [VecSetValues 0 [0, 1, 1, 0, 1]
        [1 / 10 ^ 5, - (1 / 10 ^ 5), - (1 / 2 * (1 / 10 ^ 5)), 1 / 2, - (1 / 2)] ADD_VALUES]
   \<and> snd (DDM1_Pseudo_Time_Step_Function ex_cfg ex_pad_region ex_x (0::nat) INSERT_VALUES)
       = INSERT_VALUES
   \<and> snd (DDM1_Pseudo_Time_Step_Jacobian ex_cfg ex_pad_region ex_x INSERT_VALUES)
       = INSERT_VALUES"
  by (simp add: DDM1_Function_calls ex_entries assembly_guard_def
        DDM1_Pseudo_Time_Step_Function_def DDM1_Pseudo_Time_Step_Jacobian_def ex_pad_region_def)

text \<open>
  Claim C8, amended. When \<^verbatim>\<open>DDM1_Function\<close> or \<^verbatim>\<open>DDM1_Pseudo_Time_Step_Function\<close> is
  entered with a flag that is neither \<^verbatim>\<open>ADD_VALUES\<close> nor \<^verbatim>\<open>NOT_SET_VALUES\<close> (overwrite
  mode), the first two calls are \<^verbatim>\<open>VecAssemblyBegin\<close> and \<^verbatim>\<open>VecAssemblyEnd\<close> on \<open>f\<close>
  and every later call is an additive write to \<open>f\<close>; when it is entered with
  \<^verbatim>\<open>ADD_VALUES\<close> or with \<^verbatim>\<open>NOT_SET_VALUES\<close> (unset), no assembly call is issued and
  every call is an additive write. \<^verbatim>\<open>DDM1_Function\<close> and \<^verbatim>\<open>DDM1_Jacobian\<close> always
  return with the flag \<^verbatim>\<open>ADD_VALUES\<close>; the two pseudo time step routines return with
  \<^verbatim>\<open>ADD_VALUES\<close> unless the region is connected to a low-resistance solder pad, when
  they write nothing (the residual routine issues the calls of the guard only, the
  Jacobian routine none) and leave the flag as it was.
\<close>

theorem insertion_mode_guard:
  "(flag \<noteq> ADD_VALUES \<and> flag \<noteq> NOT_SET_VALUES \<longrightarrow>
      (\<exists>ws. fst (DDM1_Function cfg r x f flag) = VecAssemblyBegin f # VecAssemblyEnd f # ws
            \<and> list_all (additive_write f) ws)
      \<and> (\<exists>ws. fst (DDM1_Pseudo_Time_Step_Function cfg r x f flag)
                = VecAssemblyBegin f # VecAssemblyEnd f # ws
              \<and> list_all (additive_write f) ws))
   \<and> (flag = ADD_VALUES \<or> flag = NOT_SET_VALUES \<longrightarrow>
        list_all (additive_write f) (fst (DDM1_Function cfg r x f flag))
        \<and> list_all (additive_write f) (fst (DDM1_Pseudo_Time_Step_Function cfg r x f flag)))
   \<and> snd (DDM1_Function cfg r x f flag) = ADD_VALUES
   \<and> snd (DDM1_Jacobian cfg r x flag) = ADD_VALUES
   \<and> snd (DDM1_Pseudo_Time_Step_Function cfg r x f flag) =
       (if connect_to_low_resistance_solderpad r then flag else ADD_VALUES)
   \<and> snd (DDM1_Pseudo_Time_Step_Jacobian cfg r x flag) =
       (if connect_to_low_resistance_solderpad r then flag else ADD_VALUES)
   \<and> (connect_to_low_resistance_solderpad r \<longrightarrow>
         fst (DDM1_Pseudo_Time_Step_Function cfg r x f flag) = assembly_guard f flag
         \<and> fst (DDM1_Pseudo_Time_Step_Jacobian cfg r x flag) = [])"
proof -
  have a: "flag \<noteq> ADD_VALUES \<and> flag \<noteq> NOT_SET_VALUES \<longrightarrow>
      (\<exists>ws. fst (DDM1_Function cfg r x f flag) = VecAssemblyBegin f # VecAssemblyEnd f # ws
            \<and> list_all (additive_write f) ws)"
    using additive_DDM1_Function [of f cfg r x]
    by (simp add: DDM1_Function_calls assembly_guard_def)
  have b: "flag \<noteq> ADD_VALUES \<and> flag \<noteq> NOT_SET_VALUES \<longrightarrow>
      (\<exists>ws. fst (DDM1_Pseudo_Time_Step_Function cfg r x f flag)
                = VecAssemblyBegin f # VecAssemblyEnd f # ws
              \<and> list_all (additive_write f) ws)"
    using additive_Pseudo [of f r cfg x]
    by (simp add: DDM1_Pseudo_Time_Step_Function_calls assembly_guard_def)
  have c: "flag = ADD_VALUES \<or> flag = NOT_SET_VALUES \<longrightarrow>
        list_all (additive_write f) (fst (DDM1_Function cfg r x f flag))"
    using additive_DDM1_Function [of f cfg r x]
    by (auto simp: DDM1_Function_calls assembly_guard_def)
  have d: "flag = ADD_VALUES \<or> flag = NOT_SET_VALUES \<longrightarrow>
        list_all (additive_write f) (fst (DDM1_Pseudo_Time_Step_Function cfg r x f flag))"
    using additive_Pseudo [of f r cfg x]
    by (auto simp: DDM1_Pseudo_Time_Step_Function_calls assembly_guard_def)
  have e: "snd (DDM1_Function cfg r x f flag) = ADD_VALUES"
    by (simp add: DDM1_Function_def Let_def)
  have g: "snd (DDM1_Jacobian cfg r x flag) = ADD_VALUES"
    by (simp add: DDM1_Jacobian_def Let_def)
  have h: "snd (DDM1_Pseudo_Time_Step_Function cfg r x f flag) =
       (if connect_to_low_resistance_solderpad r then flag else ADD_VALUES)"
    by (simp add: DDM1_Pseudo_Time_Step_Function_def Let_def)
  have i: "snd (DDM1_Pseudo_Time_Step_Jacobian cfg r x flag) =
       (if connect_to_low_resistance_solderpad r then flag else ADD_VALUES)"
    by (simp add: DDM1_Pseudo_Time_Step_Jacobian_def Let_def)
  have j: "connect_to_low_resistance_solderpad r \<longrightarrow>
         fst (DDM1_Pseudo_Time_Step_Function cfg r x f flag) = assembly_guard f flag
         \<and> fst (DDM1_Pseudo_Time_Step_Jacobian cfg r x flag) = []"
    by (simp add: DDM1_Pseudo_Time_Step_Function_calls DDM1_Pseudo_Time_Step_Jacobian_calls)
  show ?thesis
    using a b c d e g h i j by blast
qed

text \<open>
  The theorem at the example regions: entered with \<^verbatim>\<open>INSERT_VALUES\<close> both residual
  routines assemble first and then only add; entered with \<^verbatim>\<open>NOT_SET_VALUES\<close> or
  \<^verbatim>\<open>ADD_VALUES\<close> they only add; for the pad-connected region the pseudo time step
  routines write nothing and return the flag they were given.
\<close>

theorem insertion_mode_guard_witness:
  "INSERT_VALUES \<noteq> ADD_VALUES \<and> INSERT_VALUES \<noteq> NOT_SET_VALUES
   \<and> (\<exists>ws. fst (DDM1_Function ex_cfg ex_region ex_x (0::nat) INSERT_VALUES)
             = VecAssemblyBegin 0 # VecAssemblyEnd 0 # ws
           \<and> list_all (additive_write 0) ws)
   \<and> (\<exists>ws. fst (DDM1_Pseudo_Time_Step_Function ex_cfg ex_region ex_x (0::nat) INSERT_VALUES)
             = VecAssemblyBegin 0 # VecAssemblyEnd 0 # ws
           \<and> list_all (additive_write 0) ws)
   \<and> list_all (additive_write 0) (fst (DDM1_Function ex_cfg ex_region ex_x (0::nat) NOT_SET_VALUES))
   \<and> list_all (additive_write 0)
        (fst (DDM1_Pseudo_Time_Step_Function ex_cfg ex_region ex_x (0::nat) ADD_VALUES))
   \<and> fst (DDM1_Pseudo_Time_Step_Function ex_cfg ex_region ex_x (0::nat) INSERT_VALUES) =
       [VecAssemblyBegin 0, VecAssemblyEnd 0,
        VecSetValue 0 0 (5 / 6) ADD_VALUES, VecSetValue 0 1 (- (5 / 6)) ADD_VALUES]
   \<and> snd (DDM1_Pseudo_Time_Step_Function ex_cfg ex_region ex_x (0::nat) INSERT_VALUES)
       = ADD_VALUES
   \<and> connect_to_low_resistance_solderpad ex_pad_region
   \<and> DDM1_Pseudo_Time_Step_Function ex_cfg ex_pad_region ex_x (0::nat) INSERT_VALUES
       = ([VecAssemblyBegin 0, VecAssemblyEnd 0], INSERT_VALUES)
   \<and> DDM1_Pseudo_Time_Step_Jacobian ex_cfg ex_pad_region ex_x INSERT_VALUES
       = ([], INSERT_VALUES)"
proof -
  have h: "INSERT_VALUES \<noteq> ADD_VALUES \<and> INSERT_VALUES \<noteq> NOT_SET_VALUES"
    by simp
  have p: "connect_to_low_resistance_solderpad ex_pad_region"
    by (simp add: ex_pad_region_def)
  note t4 = insertion_mode_guard [of INSERT_VALUES ex_cfg ex_pad_region ex_x "0::nat"]
  have "fst (DDM1_Pseudo_Time_Step_Function ex_cfg ex_pad_region ex_x (0::nat) INSERT_VALUES)
          = [VecAssemblyBegin 0, VecAssemblyEnd 0]
        \<and> snd (DDM1_Pseudo_Time_Step_Function ex_cfg ex_pad_region ex_x (0::nat) INSERT_VALUES)
          = INSERT_VALUES"
    using t4 p by (simp add: assembly_guard_def)
  then have 6: "DDM1_Pseudo_Time_Step_Function ex_cfg ex_pad_region ex_x (0::nat) INSERT_VALUES
       = ([VecAssemblyBegin 0, VecAssemblyEnd 0], INSERT_VALUES)"
    by (simp add: prod_eq_iff)
  have "fst (DDM1_Pseudo_Time_Step_Jacobian ex_cfg ex_pad_region ex_x INSERT_VALUES) = []
        \<and> snd (DDM1_Pseudo_Time_Step_Jacobian ex_cfg ex_pad_region ex_x INSERT_VALUES)
          = INSERT_VALUES"
    using t4 p by simp
  then have 7: "DDM1_Pseudo_Time_Step_Jacobian ex_cfg ex_pad_region ex_x INSERT_VALUES
       = ([], INSERT_VALUES)"
    by (simp add: prod_eq_iff)
  note t1 = insertion_mode_guard [of INSERT_VALUES ex_cfg ex_region ex_x "0::nat"]
  note t2 = insertion_mode_guard [of NOT_SET_VALUES ex_cfg ex_region ex_x "0::nat"]
  note t3 = insertion_mode_guard [of ADD_VALUES ex_cfg ex_region ex_x "0::nat"]
  have 1: "(\<exists>ws. fst (DDM1_Function ex_cfg ex_region ex_x (0::nat) INSERT_VALUES)
             = VecAssemblyBegin 0 # VecAssemblyEnd 0 # ws
           \<and> list_all (additive_write 0) ws)
   \<and> (\<exists>ws. fst (DDM1_Pseudo_Time_Step_Function ex_cfg ex_region ex_x (0::nat) INSERT_VALUES)
             = VecAssemblyBegin 0 # VecAssemblyEnd 0 # ws
           \<and> list_all (additive_write 0) ws)"
    using t1 h by blast
  have 2: "list_all (additive_write 0)
             (fst (DDM1_Function ex_cfg ex_region ex_x (0::nat) NOT_SET_VALUES))"
    using t2 by blast
  have 3: "list_all (additive_write 0)
        (fst (DDM1_Pseudo_Time_Step_Function ex_cfg ex_region ex_x (0::nat) ADD_VALUES))"
    using t3 by blast
  have 4: "fst (DDM1_Pseudo_Time_Step_Function ex_cfg ex_region ex_x (0::nat) INSERT_VALUES) =
       [VecAssemblyBegin 0, VecAssemblyEnd 0,
        VecSetValue 0 0 (5 / 6) ADD_VALUES, VecSetValue 0 1 (- (5 / 6)) ADD_VALUES]"
    apply (simp add: DDM1_Pseudo_Time_Step_Function_calls assembly_guard_def
        ex_on_processor_nodes spec_pseudo_term_def ex_pseudo_cap)
    apply (simp add: ex_defs)
    done
  have 5: "snd (DDM1_Pseudo_Time_Step_Function ex_cfg ex_region ex_x (0::nat) INSERT_VALUES)
       = ADD_VALUES"
    using t1 by (simp add: ex_region_def)
  show ?thesis
    using h p 1 2 3 4 5 6 7 by blast
qed

section \<open>DDM1\_Update\_Solution: the commit of an accepted iterate\<close>

lemma Update_Solution_node_other:
  "p \<noteq> node_ptr n \<Longrightarrow> Update_Solution_node lxx st n p = st p"
  by (simp add: Update_Solution_node_def Let_def)

lemma Update_Solution_node_self:
  "Update_Solution_node lxx st n (node_ptr n) =
     (st (node_ptr n))\<lparr>psi_last := psi (st (node_ptr n)), psi := lxx (local_offset n)\<rparr>"
  by (simp add: Update_Solution_node_def Let_def)

lemma foldl_Update_Solution_other:
  "p \<notin> node_ptr ` set ns \<Longrightarrow> foldl (Update_Solution_node lxx) st ns p = st p"
  by (induction ns arbitrary: st) (simp_all add: Update_Solution_node_other)

lemma foldl_Update_Solution_self:
  "distinct (map node_ptr ns) \<Longrightarrow> n \<in> set ns \<Longrightarrow>
     foldl (Update_Solution_node lxx) st ns (node_ptr n) =
       (st (node_ptr n))\<lparr>psi_last := psi (st (node_ptr n)), psi := lxx (local_offset n)\<rparr>"
proof (induction ns arbitrary: st)
  case Nil
  then show ?case by simp
next
  case (Cons a ns)
  show ?case
  proof (cases "n = a")
    case True
    have "node_ptr a \<notin> node_ptr ` set ns"
      using Cons.prems(1) by simp
    then have "foldl (Update_Solution_node lxx) (Update_Solution_node lxx st a) ns (node_ptr a)
                 = Update_Solution_node lxx st a (node_ptr a)"
      by (rule foldl_Update_Solution_other)
    then show ?thesis
      using True by (simp add: Update_Solution_node_self)
  next
    case False
    then have n: "n \<in> set ns" and d: "distinct (map node_ptr ns)"
      using Cons.prems by auto
    have "node_ptr a \<notin> node_ptr ` set ns"
      using Cons.prems(1) by simp
    then have ne: "node_ptr n \<noteq> node_ptr a"
      using n by (metis imageI)
    show ?thesis
      using Cons.IH [OF d n] ne by (simp add: Update_Solution_node_other)
  qed
qed

lemma ex_on_local_nodes: "on_local_nodes ex_region = [ex_A, ex_B, ex_C]"
  by (simp add: on_local_nodes_def ex_defs)

text \<open>
  Claim C9, as stated, at the example region: the node \<open>ex_C\<close> is a ghost node, not
  owned by this processor, and \<^verbatim>\<open>DDM1_Update_Solution\<close> changes its state all the same
  (its previous potential goes from \<open>0\<close> to \<open>1/2\<close>).
\<close>

theorem update_solution_counterexample:
  "ex_C \<in> set (region_nodes ex_region) \<and> \<not> on_processor ex_C
   \<and> psi_last (node_data ex_region (node_ptr ex_C)) = 0
   \<and> psi_last (node_data (DDM1_Update_Solution ex_region ex_x) (node_ptr ex_C)) = 1 / 2"
  by (simp add: DDM1_Update_Solution_def on_local_nodes_def Update_Solution_node_def Let_def
        ex_defs)

text \<open>
  Claim C9, amended. The loop of \<^verbatim>\<open>DDM1_Update_Solution\<close> runs over the local nodes of
  the region (the range \<^verbatim>\<open>on_local_nodes_begin()\<close> .. \<^verbatim>\<open>on_local_nodes_end()\<close>: the nodes
  with \<open>on_local\<close>, owned or ghost) and does not test ownership. When the local nodes
  are distinct objects, every local node ends with its previous potential equal to its
  potential before the call and its potential equal to the entry of \<open>lxx\<close> at its
  local offset; the data of every node that is not local are unchanged, and nothing
  of the region but the node data is changed.
\<close>

theorem update_solution_commit:
  assumes "distinct (map node_ptr (on_local_nodes r))"
  shows "(\<forall>n \<in> set (on_local_nodes r).
            node_data (DDM1_Update_Solution r lxx) (node_ptr n) =
              (node_data r (node_ptr n))
                \<lparr>psi_last := psi (node_data r (node_ptr n)), psi := lxx (local_offset n)\<rparr>)
         \<and> (\<forall>p. p \<notin> node_ptr ` set (on_local_nodes r) \<longrightarrow>
               node_data (DDM1_Update_Solution r lxx) p = node_data r p)
         \<and> DDM1_Update_Solution r lxx =
             r\<lparr>node_data := node_data (DDM1_Update_Solution r lxx)\<rparr>
         \<and> set (on_local_nodes r) = {n \<in> set (region_nodes r). on_local n}"
  using assms
  by (simp add: DDM1_Update_Solution_def foldl_Update_Solution_self
        foldl_Update_Solution_other on_local_nodes_def)

text \<open>
  The theorem at the example region: the node \<open>ex_B\<close>, with potential \<open>3/4\<close> before
  the call, ends with previous potential \<open>3/4\<close> and potential \<open>1\<close>; the data at
  an address of no local node are unchanged.
\<close>

theorem update_solution_commit_witness:
  "distinct (map node_ptr (on_local_nodes ex_region))
   \<and> node_data (DDM1_Update_Solution ex_region ex_x) (node_ptr ex_B)
       = \<lparr>psi = 1, psi_last = 3 / 4\<rparr>
   \<and> node_data (DDM1_Update_Solution ex_region ex_x) 7 = node_data ex_region 7"
proof -
  have d: "distinct (map node_ptr (on_local_nodes ex_region))"
    by (simp add: ex_on_local_nodes) (simp add: ex_defs)
  note t = update_solution_commit [OF d, of ex_x]
  have b: "ex_B \<in> set (on_local_nodes ex_region)"
    by (simp add: ex_on_local_nodes)
  have "node_data (DDM1_Update_Solution ex_region ex_x) (node_ptr ex_B) =
          (node_data ex_region (node_ptr ex_B))
            \<lparr>psi_last := psi (node_data ex_region (node_ptr ex_B)),
             psi := ex_x (local_offset ex_B)\<rparr>"
    using t b by blast
  then have 1: "node_data (DDM1_Update_Solution ex_region ex_x) (node_ptr ex_B)
       = \<lparr>psi = 1, psi_last = 3 / 4\<rparr>"
    by (simp add: ex_defs)
  have "7 \<notin> node_ptr ` set (on_local_nodes ex_region)"
    by (simp add: ex_on_local_nodes) (simp add: ex_defs)
  then have 2: "node_data (DDM1_Update_Solution ex_region ex_x) 7 = node_data ex_region 7"
    using t by blast
  show ?thesis using d 1 2 by blast
qed

end
